theory Spec2Isabelle
  imports Complex_Main
begin

section \<open>Numbers, constants and the random source\<close>

text \<open>
  The game is \<^verbatim>\<open>planetoids.py\<close>. Python floats are read as real numbers (exact
  arithmetic: rounding, infinities and NaN are outside this development) and Python
  integers as \<^typ>\<open>int\<close>. Sound output (\<^verbatim>\<open>play_hit_sound\<close>,
  \<^verbatim>\<open>play_explosion_sound\<close>, \<^verbatim>\<open>play_shoot_sound\<close>) swallows every exception and
  touches no game field, so it has no counterpart here; neither has drawing.
\<close>

definition SCREEN_WIDTH :: int where
  "SCREEN_WIDTH = 800"

definition SCREEN_HEIGHT :: int where
  "SCREEN_HEIGHT = 600"

text \<open>
  Python's \<^verbatim>\<open>a % b\<close> on floats takes the sign of the divisor: over the reals it is
  \<open>a - b * floor (a / b)\<close>. The game only divides by the non-zero constants 800 and 600.
\<close>

definition float_mod :: "real \<Rightarrow> real \<Rightarrow> real" where
  "float_mod a b = a - b * of_int \<lfloor>a / b\<rfloor>"

definition radians :: "real \<Rightarrow> real" where
  "radians d = d * pi / 180"

definition degrees :: "real \<Rightarrow> real" where
  "degrees a = a * 180 / pi"

text \<open>\<^verbatim>\<open>math.atan2(y, x)\<close>, the angle of the point \<open>(x, y)\<close> in \<open>(-pi, pi]\<close>.\<close>

definition atan2 :: "real \<Rightarrow> real \<Rightarrow> real" where
  "atan2 b a =
     (if 0 < a then arctan (b / a)
      else if a < 0 then (if 0 \<le> b then arctan (b / a) + pi else arctan (b / a) - pi)
      else if 0 < b then pi / 2
      else if b < 0 then - (pi / 2)
      else 0)"

text \<open>
  The module \<^verbatim>\<open>random\<close> belongs to Python's library, not to the game. Its generator is
  taken as an arbitrary infinite sequence of raw draws; each library call consumes the
  first draw and leaves the rest. \<^verbatim>\<open>random()\<close> is a 53-bit integer divided by \<open>2^53\<close>,
  so it lies in \<open>[0, 1)\<close>; \<^verbatim>\<open>uniform(a, b)\<close> is \<open>a + (b - a) * random()\<close>;
  \<^verbatim>\<open>randint(a, b)\<close> is an integer of \<open>[a, b]\<close>. Statements about the distribution of
  the draws cannot be made in this setting, statements about their ranges can.
\<close>

type_synonym rng = "nat \<Rightarrow> nat"

definition rng_tail :: "rng \<Rightarrow> rng" where
  "rng_tail r = (\<lambda>i. r (Suc i))"

definition random_random :: "rng \<Rightarrow> real \<times> rng" where
  "random_random r = (real (r 0 mod 2 ^ 53) / 2 ^ 53, rng_tail r)"

definition random_uniform :: "real \<Rightarrow> real \<Rightarrow> rng \<Rightarrow> real \<times> rng" where
  "random_uniform a b r = (case random_random r of (u, r') \<Rightarrow> (a + (b - a) * u, r'))"

definition random_randint :: "int \<Rightarrow> int \<Rightarrow> rng \<Rightarrow> int \<times> rng" where
  "random_randint a b r = (a + int (r 0 mod nat (b - a + 1)), rng_tail r)"

section \<open>Enumerations and vectors\<close>

datatype GameState = MENU | PLAYING | GAME_OVER | PAUSED

datatype DamageType = ASTEROID | ALIEN_SHIP | ALIEN_BULLET | HYPERSPACE

text \<open>The fields \<^verbatim>\<open>x\<close> and \<^verbatim>\<open>y\<close> of \<^verbatim>\<open>Vector2\<close> are \<open>vec_x\<close> and \<open>vec_y\<close> here.\<close>

record Vector2 =
  vec_x :: real
  vec_y :: real

definition Vector2_add :: "Vector2 \<Rightarrow> Vector2 \<Rightarrow> Vector2" where
  "Vector2_add a b = \<lparr>vec_x = vec_x a + vec_x b, vec_y = vec_y a + vec_y b\<rparr>"

definition Vector2_mul :: "Vector2 \<Rightarrow> real \<Rightarrow> Vector2" where
  "Vector2_mul a scalar = \<lparr>vec_x = vec_x a * scalar, vec_y = vec_y a * scalar\<rparr>"


text \<open>The velocity the constructors and \<^verbatim>\<open>split\<close> build from an angle in degrees and a speed.\<close>

definition heading :: "real \<Rightarrow> real \<Rightarrow> Vector2" where
  "heading angle speed =
     \<lparr>vec_x = sin (radians angle) * speed, vec_y = - cos (radians angle) * speed\<rparr>"

section \<open>GameObject\<close>

record GameObject =
  position :: Vector2
  velocity :: Vector2
  rotation :: real
  radius :: real
  active :: bool

definition GameObject_init :: "real \<Rightarrow> real \<Rightarrow> GameObject" where
  "GameObject_init px py =
     \<lparr>position = \<lparr>vec_x = px, vec_y = py\<rparr>, velocity = \<lparr>vec_x = 0, vec_y = 0\<rparr>,
      rotation = 0, radius = 10, active = True\<rparr>"

definition GameObject_update :: "real \<Rightarrow> 'a GameObject_scheme \<Rightarrow> 'a GameObject_scheme" where
  "GameObject_update dt obj =
     (let p = Vector2_add (position obj) (Vector2_mul (velocity obj) dt)
      in obj\<lparr>position := \<lparr>vec_x = float_mod (vec_x p) (of_int SCREEN_WIDTH),
                           vec_y = float_mod (vec_y p) (of_int SCREEN_HEIGHT)\<rparr>\<rparr>)"

definition collides_with :: "'a GameObject_scheme \<Rightarrow> 'b GameObject_scheme \<Rightarrow> bool" where
  "collides_with self other =
     (if \<not> (active self \<and> active other) then False
      else sqrt ((vec_x (position self) - vec_x (position other))\<^sup>2 +
                 (vec_y (position self) - vec_y (position other))\<^sup>2)
           < radius self + radius other)"

section \<open>Ship\<close>

text \<open>
  \<^verbatim>\<open>Ship.rotation_speed\<close> and \<^verbatim>\<open>Ship.shape\<close> carry the prefix \<open>ship_\<close>, since
  \<^verbatim>\<open>Asteroid\<close> has fields of the same names. \<^verbatim>\<open>damage_type\<close> is \<^verbatim>\<open>None\<close> or a
  \<^verbatim>\<open>DamageType\<close>.
\<close>

record Ship = GameObject +
  thrust_power :: real
  ship_rotation_speed :: real
  max_speed :: real
  fuel :: real
  max_fuel :: real
  invulnerable_time :: real
  hyperspace_cooldown :: real
  hit_flash_time :: real
  flash_intensity :: real
  damage_type :: "DamageType option"
  max_health :: int
  health :: int
  ship_shape :: "Vector2 list"

definition Ship_init :: "real \<Rightarrow> real \<Rightarrow> Ship" where
  "Ship_init px py =
     \<lparr>position = \<lparr>vec_x = px, vec_y = py\<rparr>, velocity = \<lparr>vec_x = 0, vec_y = 0\<rparr>,
      rotation = 0, radius = 8, active = True,
      thrust_power = 200, ship_rotation_speed = 300, max_speed = 300,
      fuel = 1000, max_fuel = 1000,
      invulnerable_time = 0, hyperspace_cooldown = 0,
      hit_flash_time = 0, flash_intensity = 0, damage_type = None,
      max_health = 3, health = 3,
      ship_shape = [\<lparr>vec_x = 0, vec_y = -10\<rparr>, \<lparr>vec_x = -6, vec_y = 8\<rparr>,
                    \<lparr>vec_x = 6, vec_y = 8\<rparr>]\<rparr>"

definition Ship_update :: "real \<Rightarrow> Ship \<Rightarrow> Ship" where
  "Ship_update dt s0 =
     (let s1 = GameObject_update dt s0;
          s2 = (if invulnerable_time s1 > 0
                then s1\<lparr>invulnerable_time := invulnerable_time s1 - dt\<rparr> else s1);
          s3 = (if hyperspace_cooldown s2 > 0
                then s2\<lparr>hyperspace_cooldown := hyperspace_cooldown s2 - dt\<rparr> else s2);
          s4 = (if hit_flash_time s3 > 0
                then s3\<lparr>hit_flash_time := hit_flash_time s3 - dt,
                        flash_intensity := max 0 ((hit_flash_time s3 - dt) / 1)\<rparr>
                else s3\<lparr>flash_intensity := 0, damage_type := None\<rparr>)
      in s4\<lparr>velocity := Vector2_mul (velocity s4) 0.98\<rparr>)"

text \<open>
  \<^verbatim>\<open>take_hit\<close> returns whether the ship is destroyed, together with the ship as the call
  leaves it.
\<close>

definition take_hit :: "DamageType \<Rightarrow> int \<Rightarrow> Ship \<Rightarrow> bool \<times> Ship" where
  "take_hit dtype damage s =
     (if invulnerable_time s > 0 then (False, s)
      else
        (let s' = s\<lparr>health := health s - damage, hit_flash_time := 1,
                    flash_intensity := 1, damage_type := Some dtype,
                    invulnerable_time := 2\<rparr>
         in (health s' \<le> 0, s')))"

definition hyperspace :: "Ship \<Rightarrow> rng \<Rightarrow> (bool \<times> Ship) \<times> rng" where
  "hyperspace s r =
     (if hyperspace_cooldown s \<le> 0 then
        (let (px, r1) = random_randint 50 (SCREEN_WIDTH - 50) r;
             (py, r2) = random_randint 50 (SCREEN_HEIGHT - 50) r1;
             s1 = s\<lparr>position := \<lparr>vec_x = of_int px, vec_y = of_int py\<rparr>,
                    velocity := \<lparr>vec_x = 0, vec_y = 0\<rparr>,
                    hyperspace_cooldown := 3\<rparr>;
             (u, r3) = random_random r2
         in if u < 0.1 then
              (let (destroyed, s2) = take_hit HYPERSPACE (health s1) s1;
                   s3 = (if destroyed then s2\<lparr>active := False\<rparr> else s2)
               in ((False, s3), r3))
            else ((True, s1), r3))
      else ((True, s), r))"

section \<open>Bullet\<close>

record Bullet = GameObject +
  lifetime :: real

definition Bullet_init :: "real \<Rightarrow> real \<Rightarrow> real \<Rightarrow> Bullet" where
  "Bullet_init px py rot =
     \<lparr>position = \<lparr>vec_x = px, vec_y = py\<rparr>, velocity = heading rot 400,
      rotation = 0, radius = 2, active = True, lifetime = 2\<rparr>"

definition Bullet_update :: "real \<Rightarrow> Bullet \<Rightarrow> Bullet" where
  "Bullet_update dt b0 =
     (let b1 = GameObject_update dt b0;
          b2 = b1\<lparr>lifetime := lifetime b1 - dt\<rparr>
      in if lifetime b2 \<le> 0 then b2\<lparr>active := False\<rparr> else b2)"

section \<open>Asteroid\<close>

text \<open>The field \<^verbatim>\<open>size\<close> is \<open>ast_size\<close> here.\<close>

record Asteroid = GameObject +
  ast_size :: int
  rotation_speed :: real
  shape :: "Vector2 list"

text \<open>The loop of the constructor that draws the outline, one vertex for each index.\<close>

fun make_shape :: "real \<Rightarrow> nat list \<Rightarrow> rng \<Rightarrow> Vector2 list \<times> rng" where
  "make_shape rad [] r = ([], r)"
| "make_shape rad (i # idxs) r =
     (let angle = (360 / 8) * real i;
          (radius_variation, r1) = random_uniform 0.7 1.3 r;
          (ps, r2) = make_shape rad idxs r1
      in (heading angle (rad * radius_variation) # ps, r2))"

definition Asteroid_init :: "real \<Rightarrow> real \<Rightarrow> int \<Rightarrow> rng \<Rightarrow> Asteroid \<times> rng" where
  "Asteroid_init px py sz r =
     (let rad = 10 + of_int sz * 8;
          (rs, r1) = random_uniform (-180) 180 r;
          (speed, r2) = random_uniform 20 80 r1;
          (angle, r3) = random_uniform 0 360 r2;
          (sh, r4) = make_shape rad [0..<8] r3
      in (\<lparr>position = \<lparr>vec_x = px, vec_y = py\<rparr>, velocity = heading angle speed,
           rotation = 0, radius = rad, active = True,
           ast_size = sz, rotation_speed = rs, shape = sh\<rparr>, r4))"

definition Asteroid_update :: "real \<Rightarrow> Asteroid \<Rightarrow> Asteroid" where
  "Asteroid_update dt a0 =
     (let a1 = GameObject_update dt a0
      in a1\<lparr>rotation := rotation a1 + rotation_speed a1 * dt\<rparr>)"

text \<open>The loop of \<^verbatim>\<open>split\<close>: one child for each of the \<open>n\<close> rounds.\<close>

fun split_children :: "Asteroid \<Rightarrow> nat \<Rightarrow> rng \<Rightarrow> Asteroid list \<times> rng" where
  "split_children a 0 r = ([], r)"
| "split_children a (Suc n) r =
     (let (new_asteroid, r1) =
            Asteroid_init (vec_x (position a)) (vec_y (position a)) (ast_size a - 1) r;
          (speed, r2) = random_uniform 40 120 r1;
          (angle, r3) = random_uniform 0 360 r2;
          (rest, r4) = split_children a n r3
      in (new_asteroid\<lparr>velocity := heading angle speed\<rparr> # rest, r4))"

definition Asteroid_split :: "Asteroid \<Rightarrow> rng \<Rightarrow> Asteroid list \<times> rng" where
  "Asteroid_split a r =
     (if ast_size a \<le> 1 then ([], r)
      else (let (num_splits, r1) = random_randint 2 3 r
            in split_children a (nat num_splits) r1))"

section \<open>AlienShip\<close>

record AlienShip = GameObject +
  shoot_timer :: real
  shoot_interval :: real
  direction_timer :: real
  direction_interval :: real

definition AlienShip_init :: "real \<Rightarrow> real \<Rightarrow> rng \<Rightarrow> AlienShip \<times> rng" where
  "AlienShip_init px py r =
     (let (si, r1) = random_uniform 1.5 3 r;
          (di, r2) = random_uniform 2 4 r1;
          (speed, r3) = random_uniform 50 100 r2;
          (angle, r4) = random_uniform 0 360 r3
      in (\<lparr>position = \<lparr>vec_x = px, vec_y = py\<rparr>, velocity = heading angle speed,
           rotation = 0, radius = 12, active = True,
           shoot_timer = 0, shoot_interval = si,
           direction_timer = 0, direction_interval = di\<rparr>, r4))"

definition AlienShip_update :: "real \<Rightarrow> AlienShip \<Rightarrow> rng \<Rightarrow> AlienShip \<times> rng" where
  "AlienShip_update dt al0 r =
     (let al1 = GameObject_update dt al0;
          al2 = al1\<lparr>shoot_timer := shoot_timer al1 + dt,
                    direction_timer := direction_timer al1 + dt\<rparr>
      in if direction_timer al2 \<ge> direction_interval al2 then
           (let (speed, r1) = random_uniform 50 100 r;
                (angle, r2) = random_uniform 0 360 r1;
                (di, r3) = random_uniform 2 4 r2
            in (al2\<lparr>velocity := heading angle speed, direction_timer := 0,
                     direction_interval := di\<rparr>, r3))
         else (al2, r))"

definition should_shoot :: "AlienShip \<Rightarrow> rng \<Rightarrow> (bool \<times> AlienShip) \<times> rng" where
  "should_shoot al r =
     (if shoot_timer al \<ge> shoot_interval al then
        (let (si, r1) = random_uniform 1.5 3 r
         in ((True, al\<lparr>shoot_timer := 0, shoot_interval := si\<rparr>), r1))
      else ((False, al), r))"

definition get_shoot_angle :: "AlienShip \<Rightarrow> Vector2 \<Rightarrow> rng \<Rightarrow> real \<times> rng" where
  "get_shoot_angle al target_pos r =
     (let dx = vec_x target_pos - vec_x (position al);
          dy = vec_y target_pos - vec_y (position al);
          angle = degrees (atan2 dx (- dy));
          (noise, r1) = random_uniform (-30) 30 r
      in (angle + noise, r1))"

section \<open>Game\<close>

text \<open>
  The fields of \<^verbatim>\<open>Game\<close> that hold simulation state. The window, the fonts, the clock
  and the set of held keys belong to input and drawing and are left out. The lists hold
  the objects in the order of the Python lists.
\<close>

record Game =
  state :: GameState
  score :: int
  lives :: int
  level :: int
  ship :: "Ship option"
  bullets :: "Bullet list"
  asteroids :: "Asteroid list"
  alien_ships :: "AlienShip list"
  alien_bullets :: "Bullet list"
  alien_spawn_timer :: real
  alien_spawn_interval :: real

text \<open>The simulation fields as \<^verbatim>\<open>Game.__init__\<close> sets them.\<close>

definition Game_init :: Game where
  "Game_init =
     \<lparr>state = MENU, score = 0, lives = 3, level = 1, ship = None, bullets = [],
      asteroids = [], alien_ships = [], alien_bullets = [],
      alien_spawn_timer = 0, alien_spawn_interval = 20\<rparr>"

text \<open>
  \<^verbatim>\<open>start_level\<close> and the respawn in \<^verbatim>\<open>update\<close> build the ship with the same three
  statements: \<^verbatim>\<open>Ship(SCREEN_WIDTH // 2, SCREEN_HEIGHT // 2)\<close>, then
  \<^verbatim>\<open>invulnerable_time = 2.0\<close>, then \<^verbatim>\<open>health = max_health\<close>.
\<close>

definition new_ship :: Ship where
  "new_ship =
     (let s = Ship_init (of_int (SCREEN_WIDTH div 2)) (of_int (SCREEN_HEIGHT div 2));
          s1 = s\<lparr>invulnerable_time := 2\<rparr>
      in s1\<lparr>health := max_health s1\<rparr>)"

subsection \<open>start_level\<close>

text \<open>
  The \<^verbatim>\<open>while True\<close> loop that places one asteroid: it draws a point, and either
  builds the asteroid there and leaves, or draws again. Nothing bounds the number of
  rounds, so the loop is a partial function: \<open>None\<close> stands for a run that never leaves.
\<close>

partial_function (option) place_asteroid :: "Ship \<Rightarrow> rng \<Rightarrow> (Asteroid \<times> rng) option" where
  "place_asteroid sh r =
     (let (px, r1) = random_randint 50 (SCREEN_WIDTH - 50) r;
          (py, r2) = random_randint 50 (SCREEN_HEIGHT - 50) r1;
          distance = sqrt ((of_int px - vec_x (position sh))\<^sup>2 +
                           (of_int py - vec_y (position sh))\<^sup>2)
      in if distance > 100 then Some (Asteroid_init (of_int px) (of_int py) 3 r2)
         else place_asteroid sh r2)"

text \<open>The \<^verbatim>\<open>for\<close> loop around it; \<open>acc\<close> is \<^verbatim>\<open>self.asteroids\<close> as built so far.\<close>

fun place_asteroids :: "Ship \<Rightarrow> nat \<Rightarrow> Asteroid list \<Rightarrow> rng \<Rightarrow> (Asteroid list \<times> rng) option" where
  "place_asteroids sh 0 acc r = Some (acc, r)"
| "place_asteroids sh (Suc n) acc r =
     (case place_asteroid sh r of
        None \<Rightarrow> None
      | Some (a, r1) \<Rightarrow> place_asteroids sh n (acc @ [a]) r1)"

definition start_level :: "Game \<Rightarrow> rng \<Rightarrow> (Game \<times> rng) option" where
  "start_level g r =
     (let g1 = g\<lparr>ship := Some new_ship, bullets := [], alien_ships := [],
                  alien_bullets := []\<rparr>;
          num_asteroids = 4 + level g1
      in case place_asteroids new_ship (nat num_asteroids) [] r of
           None \<Rightarrow> None
         | Some (asts, r1) \<Rightarrow> Some (g1\<lparr>asteroids := asts, alien_spawn_timer := 0\<rparr>, r1))"

definition reset_game :: "Game \<Rightarrow> rng \<Rightarrow> (Game \<times> rng) option" where
  "reset_game g r = start_level (g\<lparr>score := 0, lives := 3, level := 1\<rparr>) r"

subsection \<open>Collisions\<close>

text \<open>
  Every inner loop of \<^verbatim>\<open>check_collisions\<close> scans a list, acts on the first element that
  collides and leaves with \<^verbatim>\<open>break\<close>: \<open>first_hit\<close> is that scan, giving the index of
  the element. Python's \<^verbatim>\<open>list.remove\<close> compares these objects by identity and every
  object is in its list once, so removing the object found at index \<open>i\<close> deletes
  position \<open>i\<close>.
\<close>

fun first_hit :: "'a GameObject_scheme \<Rightarrow> 'b GameObject_scheme list \<Rightarrow> nat option" where
  "first_hit obj [] = None"
| "first_hit obj (t # ts) =
     (if collides_with obj t then Some 0 else map_option Suc (first_hit obj ts))"

definition remove_at :: "nat \<Rightarrow> 'a list \<Rightarrow> 'a list" where
  "remove_at i xs = take i xs @ drop (Suc i) xs"

definition score_values :: "int \<rightharpoonup> int" where
  "score_values = [1 \<mapsto> 100, 2 \<mapsto> 50, 3 \<mapsto> 20]"

definition score_for :: "int \<Rightarrow> int" where
  "score_for sz = (case score_values sz of None \<Rightarrow> 20 | Some v \<Rightarrow> v)"

text \<open>
  Player bullets against asteroids. The first argument is what is left of the copy
  \<^verbatim>\<open>self.bullets[:]\<close>; the result holds \<^verbatim>\<open>self.bullets\<close>, \<^verbatim>\<open>self.asteroids\<close> and
  \<^verbatim>\<open>self.score\<close> after the loop. The inner copy \<^verbatim>\<open>self.asteroids[:]\<close> is taken anew
  for each bullet, so it contains the children of earlier hits. The last component is
  a record of the pairs that were taken out, in the state the code leaves them
  (\<^verbatim>\<open>active = False\<close>): the code keeps no such list, the objects are simply dropped.
\<close>

fun bullets_vs_asteroids ::
  "Bullet list \<Rightarrow> Asteroid list \<Rightarrow> int \<Rightarrow> rng \<Rightarrow>
     (Bullet list \<times> Asteroid list \<times> int \<times> (Bullet \<times> Asteroid) list) \<times> rng" where
  "bullets_vs_asteroids [] asts sc r = (([], asts, sc, []), r)"
| "bullets_vs_asteroids (bullet # rest) asts sc r =
     (case first_hit bullet asts of
        None \<Rightarrow>
          (let ((bs', asts', sc', gone), r') = bullets_vs_asteroids rest asts sc r
           in ((bullet # bs', asts', sc', gone), r'))
      | Some i \<Rightarrow>
          (let bullet' = bullet\<lparr>active := False\<rparr>;
               asteroid = (asts ! i)\<lparr>active := False\<rparr>;
               sc1 = sc + score_for (ast_size asteroid);
               (new_asteroids, r1) = Asteroid_split asteroid r;
               asts1 = remove_at i (asts @ new_asteroids);
               ((bs', asts', sc', gone), r') = bullets_vs_asteroids rest asts1 sc1 r1
           in ((bs', asts', sc', (bullet', asteroid) # gone), r')))"

text \<open>Player bullets against alien ships, with the same reading of the arguments.\<close>

fun bullets_vs_aliens ::
  "Bullet list \<Rightarrow> AlienShip list \<Rightarrow> int \<Rightarrow>
     Bullet list \<times> AlienShip list \<times> int \<times> (Bullet \<times> AlienShip) list" where
  "bullets_vs_aliens [] als sc = ([], als, sc, [])"
| "bullets_vs_aliens (bullet # rest) als sc =
     (case first_hit bullet als of
        None \<Rightarrow>
          (let (bs', als', sc', gone) = bullets_vs_aliens rest als sc
           in (bullet # bs', als', sc', gone))
      | Some i \<Rightarrow>
          (let bullet' = bullet\<lparr>active := False\<rparr>;
               alien = (als ! i)\<lparr>active := False\<rparr>;
               (bs', als', sc', gone) = bullets_vs_aliens rest (remove_at i als) (sc + 500)
           in (bs', als', sc', (bullet', alien) # gone)))"

text \<open>
  The three passes of the ship. Each is guarded by
  \<^verbatim>\<open>self.ship and self.ship.active and self.ship.invulnerable_time <= 0\<close>.
\<close>

definition ship_exposed :: "Game \<Rightarrow> bool" where
  "ship_exposed g =
     (case ship g of None \<Rightarrow> False | Some s \<Rightarrow> active s \<and> invulnerable_time s \<le> 0)"

definition ship_hit :: "DamageType \<Rightarrow> int \<Rightarrow> Ship \<Rightarrow> Ship" where
  "ship_hit dtype damage s =
     (let (destroyed, s') = take_hit dtype damage s
      in if destroyed then s'\<lparr>active := False\<rparr> else s')"

definition ship_vs_asteroids :: "Game \<Rightarrow> Game" where
  "ship_vs_asteroids g =
     (if ship_exposed g then
        (case first_hit (the (ship g)) (asteroids g) of
           None \<Rightarrow> g
         | Some i \<Rightarrow> g\<lparr>ship := Some (ship_hit ASTEROID 1 (the (ship g)))\<rparr>)
      else g)"

definition ship_vs_aliens :: "Game \<Rightarrow> Game" where
  "ship_vs_aliens g =
     (if ship_exposed g then
        (case first_hit (the (ship g)) (alien_ships g) of
           None \<Rightarrow> g
         | Some i \<Rightarrow>
             g\<lparr>ship := Some (ship_hit ALIEN_SHIP 2 (the (ship g))),
               alien_ships := (alien_ships g)[i := (alien_ships g ! i)\<lparr>active := False\<rparr>]\<rparr>)
      else g)"

definition ship_vs_alien_bullets :: "Game \<Rightarrow> Game" where
  "ship_vs_alien_bullets g =
     (if ship_exposed g then
        (case first_hit (the (ship g)) (alien_bullets g) of
           None \<Rightarrow> g
         | Some i \<Rightarrow>
             g\<lparr>ship := Some (ship_hit ALIEN_BULLET 1 (the (ship g))),
               alien_bullets := remove_at i (alien_bullets g)\<rparr>)
      else g)"

definition check_collisions :: "Game \<Rightarrow> rng \<Rightarrow> Game \<times> rng" where
  "check_collisions g r =
     (let ((bs1, asts1, sc1, gone1), r1) =
            bullets_vs_asteroids (bullets g) (asteroids g) (score g) r;
          (bs2, als2, sc2, gone2) = bullets_vs_aliens bs1 (alien_ships g) sc1;
          g2 = g\<lparr>bullets := bs2, asteroids := asts1, alien_ships := als2, score := sc2\<rparr>
      in (ship_vs_alien_bullets (ship_vs_aliens (ship_vs_asteroids g2)), r1))"

subsection \<open>The tick\<close>

text \<open>
  The loops over \<^verbatim>\<open>self.bullets[:]\<close> and \<^verbatim>\<open>self.alien_bullets[:]\<close> update each bullet
  and remove it when it is no longer active.
\<close>

definition update_bullets :: "real \<Rightarrow> Bullet list \<Rightarrow> Bullet list" where
  "update_bullets dt bs = filter active (map (Bullet_update dt) bs)"

text \<open>
  The loop over \<^verbatim>\<open>self.alien_ships[:]\<close>. The result is the list of alien ships that
  stay and the bullets they fire, in order. \<^verbatim>\<open>should_shoot\<close> is called before the ship
  is looked at, as the \<^verbatim>\<open>and\<close> of the source evaluates it.
\<close>

fun update_aliens ::
  "real \<Rightarrow> Ship option \<Rightarrow> AlienShip list \<Rightarrow> rng \<Rightarrow> (AlienShip list \<times> Bullet list) \<times> rng" where
  "update_aliens dt sh [] r = (([], []), r)"
| "update_aliens dt sh (alien # rest) r =
     (let (al1, r1) = AlienShip_update dt alien r
      in if \<not> active al1 then update_aliens dt sh rest r1
         else
           (let ((shoot, al2), r2) = should_shoot al1 r1
            in if shoot \<and> (case sh of None \<Rightarrow> False | Some s \<Rightarrow> active s) then
                 (let (angle, r3) = get_shoot_angle al2 (position (the sh)) r2;
                      alien_bullet = Bullet_init (vec_x (position al2)) (vec_y (position al2)) angle;
                      ((als', bs'), r4) = update_aliens dt sh rest r3
                  in ((al2 # als', alien_bullet # bs'), r4))
               else
                 (let ((als', bs'), r3) = update_aliens dt sh rest r2
                  in ((al2 # als', bs'), r3))))"

definition spawn_alien :: "Game \<Rightarrow> rng \<Rightarrow> Game \<times> rng" where
  "spawn_alien g r =
     (let (side, r1) = random_randint 0 3 r;
          ((px, py), r2) =
            (if side = 0 then
               (let (v, r') = random_randint 0 SCREEN_WIDTH r1 in ((v, 0), r'))
             else if side = 1 then
               (let (v, r') = random_randint 0 SCREEN_HEIGHT r1 in ((SCREEN_WIDTH, v), r'))
             else if side = 2 then
               (let (v, r') = random_randint 0 SCREEN_WIDTH r1 in ((v, SCREEN_HEIGHT), r'))
             else
               (let (v, r') = random_randint 0 SCREEN_HEIGHT r1 in ((0, v), r')));
          (al, r3) = AlienShip_init (of_int px) (of_int py) r2
      in (g\<lparr>alien_ships := alien_ships g @ [al]\<rparr>, r3))"

text \<open>
  \<^verbatim>\<open>Game.update\<close> in four parts, in the order of the source: the movement of every
  object with the alien spawn timer (up to the comment \<^verbatim>\<open># Check collisions\<close>), then
  \<^verbatim>\<open>check_collisions\<close>, then the block \<^verbatim>\<open># Check level completion\<close>, then the block
  \<^verbatim>\<open># Check game over\<close>.
\<close>

definition update_objects :: "real \<Rightarrow> Game \<Rightarrow> rng \<Rightarrow> Game \<times> rng" where
  "update_objects dt g r =
     (let g1 = g\<lparr>ship := map_option (Ship_update dt) (ship g)\<rparr>;
          g2 = g1\<lparr>bullets := update_bullets dt (bullets g1)\<rparr>;
          g3 = g2\<lparr>asteroids := map (Asteroid_update dt) (asteroids g2)\<rparr>;
          ((als, fired), r1) = update_aliens dt (ship g3) (alien_ships g3) r;
          g4 = g3\<lparr>alien_ships := als, alien_bullets := alien_bullets g3 @ fired\<rparr>;
          g5 = g4\<lparr>alien_bullets := update_bullets dt (alien_bullets g4)\<rparr>;
          g6 = g5\<lparr>alien_spawn_timer := alien_spawn_timer g5 + dt\<rparr>
      in if alien_spawn_timer g6 \<ge> alien_spawn_interval g6 then
           (let (g7, r2) = spawn_alien g6 r1 in (g7\<lparr>alien_spawn_timer := 0\<rparr>, r2))
         else (g6, r1))"

definition check_level_completion :: "Game \<Rightarrow> rng \<Rightarrow> (Game \<times> rng) option" where
  "check_level_completion g r =
     (if asteroids g = [] \<and> alien_ships g = [] then start_level (g\<lparr>level := level g + 1\<rparr>) r
      else Some (g, r))"

definition check_game_over :: "Game \<Rightarrow> Game" where
  "check_game_over g =
     (case ship g of
        None \<Rightarrow> g
      | Some s \<Rightarrow>
          if \<not> active s then
            (let g1 = g\<lparr>lives := lives g - 1\<rparr>
             in if lives g1 \<le> 0 then g1\<lparr>state := GAME_OVER\<rparr>
                else g1\<lparr>ship := Some new_ship\<rparr>)
          else g)"

text \<open>The state and the random source when \<^verbatim>\<open>check_collisions\<close> has returned.\<close>

definition after_collisions :: "real \<Rightarrow> Game \<Rightarrow> rng \<Rightarrow> Game \<times> rng" where
  "after_collisions dt g r = (let (g1, r1) = update_objects dt g r in check_collisions g1 r1)"

definition Game_update :: "real \<Rightarrow> Game \<Rightarrow> rng \<Rightarrow> (Game \<times> rng) option" where
  "Game_update dt g r =
     (if state g \<noteq> PLAYING then Some (g, r)
      else
        (let (g1, r1) = after_collisions dt g r
         in case check_level_completion g1 r1 of
              None \<Rightarrow> None
            | Some (g2, r2) \<Rightarrow> Some (check_game_over g2, r2)))"

section \<open>Predicates of the statements\<close>


text \<open>
  The fields of the ship that a hit may write: \<open>health\<close>, the timers
  \<open>invulnerable_time\<close> and \<open>hit_flash_time\<close> with the intensity of the flash,
  \<open>damage_type\<close> and \<open>active\<close>. The predicate holds when \<open>s'\<close> agrees with \<open>s\<close> on
  every other field.
\<close>

definition only_damage_fields :: "Ship \<Rightarrow> Ship \<Rightarrow> bool" where
  "only_damage_fields s s' =
     (s' = s\<lparr>health := health s', invulnerable_time := invulnerable_time s',
             hit_flash_time := hit_flash_time s', flash_intensity := flash_intensity s',
             damage_type := damage_type s', active := active s'\<rparr>)"

text \<open>The random source after \<open>n\<close> draws, and the source whose draws are all 0.\<close>

definition rng_drop :: "nat \<Rightarrow> rng \<Rightarrow> rng" where
  "rng_drop n r = (\<lambda>i. r (i + n))"

definition zero_draws :: rng where
  "zero_draws = (\<lambda>_. 0)"

text \<open>
  The test of the placement loop on the next two draws of a source: the point they give
  is more than 100 away from the ship. A source \<^emph>\<open>always eventually accepts\<close> when,
  from every position on, some later pair of draws passes the test.
\<close>

definition accepts :: "Ship \<Rightarrow> rng \<Rightarrow> bool" where
  "accepts sh r =
     (let (px, r1) = random_randint 50 (SCREEN_WIDTH - 50) r;
          (py, r2) = random_randint 50 (SCREEN_HEIGHT - 50) r1
      in sqrt ((of_int px - vec_x (position sh))\<^sup>2 + (of_int py - vec_y (position sh))\<^sup>2) > 100)"

definition always_eventually_accepts :: "Ship \<Rightarrow> rng \<Rightarrow> bool" where
  "always_eventually_accepts sh r = (\<forall>n. \<exists>k. accepts sh (rng_drop (n + 2 * k) r))"

text \<open>
  What \<^verbatim>\<open>start_level\<close> promises of an asteroid: size 3, at a point with integer
  coordinates in \<open>[50, 750] \<times> [50, 550]\<close>, more than 100 away from the ship.
\<close>

definition placed_away :: "Ship \<Rightarrow> Asteroid \<Rightarrow> bool" where
  "placed_away sh a =
     (ast_size a = 3 \<and>
      (\<exists>px py. position a = \<lparr>vec_x = of_int px, vec_y = of_int py\<rparr> \<and>
         50 \<le> px \<and> px \<le> SCREEN_WIDTH - 50 \<and> 50 \<le> py \<and> py \<le> SCREEN_HEIGHT - 50 \<and>
         100 < sqrt ((of_int px - vec_x (position sh))\<^sup>2 + (of_int py - vec_y (position sh))\<^sup>2)))"

text \<open>
  A game in which the ship, at \<open>(400, 300)\<close> and not invulnerable, overlaps a large
  asteroid at \<open>(410, 300)\<close>.
\<close>

definition ramming_game :: Game where
  "ramming_game =
     Game_init\<lparr>state := PLAYING, ship := Some (Ship_init 400 300),
               asteroids := [fst (Asteroid_init 410 300 3 zero_draws)]\<rparr>"

text \<open>
  A game one tick before its last asteroid is shot: the player's bullet is 25 below a
  small asteroid and reaches it in this tick, no alien ship is left, and an alien
  bullet is 17 below the ship, which has one point of health and is not invulnerable.
\<close>

definition last_shot_game :: Game where
  "last_shot_game =
     \<lparr>state = PLAYING, score = 0, lives = 3, level = 1,
      ship = Some ((Ship_init 400 300)\<lparr>health := 1\<rparr>),
      bullets = [(Bullet_init 100 120 0)\<lparr>lifetime := 1\<rparr>],
      asteroids = [fst (Asteroid_init 100 95 1 zero_draws)],
      alien_ships = [],
      alien_bullets = [(Bullet_init 400 317 0)\<lparr>lifetime := 1\<rparr>],
      alien_spawn_timer = 0, alien_spawn_interval = 20\<rparr>"

section \<open>Wrapping of positions\<close>








lemma GameObject_update_wraps_negative:
  "position (GameObject_update 1
     ((GameObject_init 10 20)\<lparr>velocity := \<lparr>vec_x = -30, vec_y = -25\<rparr>\<rparr>)) =
   \<lparr>vec_x = 780, vec_y = 595\<rparr>"
  by (simp add: GameObject_update_def GameObject_init_def Let_def Vector2_add_def
      Vector2_mul_def float_mod_def SCREEN_WIDTH_def SCREEN_HEIGHT_def)


section \<open>Damage to the ship\<close>

text \<open>
  Claim C2. \<open>take_hit\<close> changes nothing and returns false exactly when
  \<open>invulnerable_time > 0\<close>. Otherwise the health goes down by the damage,
  \<open>invulnerable_time\<close> becomes 2, the flash starts (\<open>hit_flash_time = 1\<close>,
  \<open>flash_intensity = 1\<close>), the damage type is recorded, no other field changes, and the
  result is true exactly when the new health is at most 0.
\<close>

theorem take_hit_spec:
  "(take_hit dtype damage s = (False, s)) = (invulnerable_time s > 0) \<and>
   (\<not> invulnerable_time s > 0 \<longrightarrow>
      (case take_hit dtype damage s of (destroyed, s') \<Rightarrow>
         health s' = health s - damage \<and> invulnerable_time s' = 2 \<and>
         hit_flash_time s' = 1 \<and> flash_intensity s' = 1 \<and> damage_type s' = Some dtype \<and>
         destroyed = (health s' \<le> 0) \<and>
         s' = s\<lparr>health := health s - damage, hit_flash_time := 1, flash_intensity := 1,
                damage_type := Some dtype, invulnerable_time := 2\<rparr>))"
proof -
  have "take_hit dtype damage s \<noteq> (False, s)" if "\<not> invulnerable_time s > 0"
  proof
    assume "take_hit dtype damage s = (False, s)"
    with that have "invulnerable_time (snd (take_hit dtype damage s)) \<le> 0" by simp
    with that show False by (simp add: take_hit_def Let_def)
  qed
  then show ?thesis by (auto simp: take_hit_def Let_def)
qed

theorem take_hit_spec_witness:
  "invulnerable_time new_ship > 0 \<and> take_hit ASTEROID 1 new_ship = (False, new_ship) \<and>
   \<not> invulnerable_time (Ship_init 400 300) > 0 \<and>
   fst (take_hit ALIEN_SHIP 2 (Ship_init 400 300)) = False \<and>
   health (snd (take_hit ALIEN_SHIP 2 (Ship_init 400 300))) = 1 \<and>
   invulnerable_time (snd (take_hit ALIEN_SHIP 2 (Ship_init 400 300))) = 2 \<and>
   fst (take_hit ALIEN_SHIP 3 (Ship_init 400 300)) = True"
  using take_hit_spec [of ASTEROID 1 new_ship] take_hit_spec [of ALIEN_SHIP 2 "Ship_init 400 300"]
    take_hit_spec [of ALIEN_SHIP 3 "Ship_init 400 300"]
  by (simp add: new_ship_def Ship_init_def Let_def split: prod.splits)

section \<open>The random source\<close>

lemma rng_tail_drop: "rng_tail r = rng_drop 1 r"
  by (simp add: rng_tail_def rng_drop_def)

lemma rng_drop_drop: "rng_drop m (rng_drop n r) = rng_drop (n + m) r"
  by (simp add: rng_drop_def ac_simps)

lemma rng_drop_0: "rng_drop 0 r = r"
  by (simp add: rng_drop_def)

lemma rng_drop_zero_draws: "rng_drop n zero_draws = zero_draws"
  by (simp add: rng_drop_def zero_draws_def)



lemma random_uniform_rng: "snd (random_uniform a b r) = rng_drop 1 r"
  by (simp add: random_uniform_def random_random_def split_def rng_tail_drop)

lemma random_randint_range:
  assumes "a \<le> b"
  shows "a \<le> fst (random_randint a b r)" and "fst (random_randint a b r) \<le> b"
proof -
  have pos: "0 < nat (b - a + 1)" using assms by simp
  have "r 0 mod nat (b - a + 1) < nat (b - a + 1)" using pos by (rule mod_less_divisor)
  then have "int (r 0 mod nat (b - a + 1)) < b - a + 1" using assms by linarith
  then show "fst (random_randint a b r) \<le> b" by (simp add: random_randint_def)
  show "a \<le> fst (random_randint a b r)" by (simp add: random_randint_def)
qed

lemma random_randint_rng: "snd (random_randint a b r) = rng_drop 1 r"
  by (simp add: random_randint_def rng_tail_drop)

section \<open>Splitting an asteroid\<close>


lemma make_shape_rng: "snd (make_shape rad idxs r) = rng_drop (length idxs) r"
proof (induction idxs arbitrary: r)
  case Nil
  then show ?case by (simp add: rng_drop_0)
next
  case (Cons i idxs)
  have "snd (make_shape rad (i # idxs) r) = snd (make_shape rad idxs (snd (random_uniform 0.7 1.3 r)))"
    by (simp add: split_def Let_def)
  then show ?case by (simp add: Cons.IH random_uniform_rng rng_drop_drop)
qed

lemma Asteroid_init_fields:
  "ast_size (fst (Asteroid_init px py sz r)) = sz"
  "position (fst (Asteroid_init px py sz r)) = \<lparr>vec_x = px, vec_y = py\<rparr>"
  "radius (fst (Asteroid_init px py sz r)) = 10 + of_int sz * 8"
  "active (fst (Asteroid_init px py sz r))"
  by (simp_all add: Asteroid_init_def Let_def split_def)

lemma Asteroid_init_rng: "snd (Asteroid_init px py sz r) = rng_drop 11 r"
  by (simp add: Asteroid_init_def Let_def split_def make_shape_rng random_uniform_rng
      rng_drop_drop)

lemma split_children_Suc:
  "split_children a (Suc n) r =
     ((fst (Asteroid_init (vec_x (position a)) (vec_y (position a)) (ast_size a - 1) r))
        \<lparr>velocity := heading (fst (random_uniform 0 360 (rng_drop 12 r)))
                              (fst (random_uniform 40 120 (rng_drop 11 r)))\<rparr>
      # fst (split_children a n (rng_drop 13 r)),
      snd (split_children a n (rng_drop 13 r)))"
  by (simp add: Let_def split_def Asteroid_init_rng random_uniform_rng rng_drop_drop)


lemma split_children_rng: "snd (split_children a n r) = rng_drop (13 * n) r"
  by (induction n arbitrary: r)
     (simp_all add: split_children_Suc rng_drop_0 rng_drop_drop del: split_children.simps(2))


lemma Asteroid_split_large:
  assumes "1 < ast_size a"
  shows "Asteroid_split a r =
           split_children a (nat (fst (random_randint 2 3 r))) (rng_drop 1 r)"
  using assms by (simp add: Asteroid_split_def Let_def split_def random_randint_rng)




section \<open>The timers of the ship\<close>







section \<open>Hyperspace while invulnerable\<close>

text \<open>
  Claim C8. Let the cooldown have elapsed (\<open>hyperspace_cooldown \<le> 0\<close>) and the ship be
  invulnerable (\<open>invulnerable_time > 0\<close>), and let the third draw of \<open>hyperspace\<close>, the
  one of \<^verbatim>\<open>random.random()\<close>, be below 0.1 (the self-destruct branch). Then
  \<open>hyperspace\<close> returns false although \<open>take_hit\<close> did nothing: the health, the active
  flag and \<open>invulnerable_time\<close> are as before, and the cooldown is 3.
\<close>

theorem hyperspace_invulnerable_self_destruct:
  assumes "hyperspace_cooldown s \<le> 0" and "invulnerable_time s > 0"
    and "fst (random_random (rng_tail (rng_tail r))) < 0.1"
  shows "fst (fst (hyperspace s r)) = False \<and>
         health (snd (fst (hyperspace s r))) = health s \<and>
         active (snd (fst (hyperspace s r))) = active s \<and>
         invulnerable_time (snd (fst (hyperspace s r))) = invulnerable_time s \<and>
         hyperspace_cooldown (snd (fst (hyperspace s r))) = 3"
  using assms
  by (simp add: hyperspace_def take_hit_def Let_def split_def random_randint_def)

theorem hyperspace_invulnerable_self_destruct_witness:
  "hyperspace_cooldown new_ship \<le> 0 \<and> invulnerable_time new_ship > 0 \<and>
   fst (random_random (rng_tail (rng_tail (\<lambda>_. 0)))) < 0.1 \<and>
   fst (fst (hyperspace new_ship (\<lambda>_. 0))) = False \<and>
   health (snd (fst (hyperspace new_ship (\<lambda>_. 0)))) = 3 \<and>
   active (snd (fst (hyperspace new_ship (\<lambda>_. 0)))) = True"
  using hyperspace_invulnerable_self_destruct [of new_ship "\<lambda>_. 0"]
  by (simp add: new_ship_def Ship_init_def random_random_def rng_tail_def)

section \<open>Starting a level\<close>

lemma place_asteroid_unfold:
  "place_asteroid sh r =
     (if accepts sh r
      then Some (Asteroid_init (of_int (fst (random_randint 50 (SCREEN_WIDTH - 50) r)))
                   (of_int (fst (random_randint 50 (SCREEN_HEIGHT - 50) (rng_drop 1 r)))) 3
                   (rng_drop 2 r))
      else place_asteroid sh (rng_drop 2 r))"
  by (subst place_asteroid.simps)
     (simp add: accepts_def Let_def split_def random_randint_rng rng_drop_drop
        numeral_2_eq_2 [symmetric])

lemma accepts_placed_away:
  assumes "accepts sh r"
  shows "placed_away sh (fst (Asteroid_init (of_int (fst (random_randint 50 (SCREEN_WIDTH - 50) r)))
           (of_int (fst (random_randint 50 (SCREEN_HEIGHT - 50) (rng_drop 1 r)))) 3 r'))"
proof -
  have "50 \<le> fst (random_randint 50 (SCREEN_WIDTH - 50) r)"
       "fst (random_randint 50 (SCREEN_WIDTH - 50) r) \<le> SCREEN_WIDTH - 50"
       "50 \<le> fst (random_randint 50 (SCREEN_HEIGHT - 50) (rng_drop 1 r))"
       "fst (random_randint 50 (SCREEN_HEIGHT - 50) (rng_drop 1 r)) \<le> SCREEN_HEIGHT - 50"
    by (rule random_randint_range, simp add: SCREEN_WIDTH_def SCREEN_HEIGHT_def)+
  with assms show ?thesis
    unfolding placed_away_def accepts_def
    by (simp add: Asteroid_init_fields split_def Let_def random_randint_rng)
qed

lemma place_asteroid_result:
  assumes "place_asteroid sh r = Some y"
  shows "placed_away sh (fst y) \<and> (\<exists>m. snd y = rng_drop m r)"
proof (induction sh r y rule: place_asteroid.raw_induct)
  case (1 place sh r y)
  show ?case
  proof (cases "accepts sh r")
    case True
    with 1(2) have y: "y = Asteroid_init (of_int (fst (random_randint 50 (SCREEN_WIDTH - 50) r)))
                 (of_int (fst (random_randint 50 (SCREEN_HEIGHT - 50) (rng_drop 1 r)))) 3
                 (rng_drop 2 r)"
      by (simp add: accepts_def Let_def split_def random_randint_rng rng_drop_drop
          numeral_2_eq_2 [symmetric])
    have "snd y = rng_drop 13 r"
      unfolding y by (simp add: Asteroid_init_rng rng_drop_drop)
    then have "\<exists>m. snd y = rng_drop m r" ..
    with accepts_placed_away [OF True] show ?thesis unfolding y by simp
  next
    case False
    with 1(2) have "place sh (rng_drop 2 r) = Some y"
      by (simp add: accepts_def Let_def split_def random_randint_rng rng_drop_drop
          numeral_2_eq_2 [symmetric])
    from 1(1) [OF this]
    have "placed_away sh (fst y) \<and> (\<exists>m. snd y = rng_drop m (rng_drop 2 r))" .
    then obtain m where a: "placed_away sh (fst y)" and "snd y = rng_drop m (rng_drop 2 r)"
      by blast
    then have "snd y = rng_drop (2 + m) r" by (simp add: rng_drop_drop)
    then have "\<exists>m. snd y = rng_drop m r" ..
    with a show ?thesis by simp
  qed
qed (rule assms)

lemma place_asteroid_Some:
  assumes "place_asteroid sh r = Some (a, r')"
  shows "placed_away sh a" and "\<exists>m. r' = rng_drop m r"
  using place_asteroid_result [OF assms] by simp_all

lemma place_asteroid_accepted:
  assumes "accepts sh r"
  shows "\<exists>a. place_asteroid sh r = Some (a, rng_drop 13 r)"
proof -
  let ?y = "Asteroid_init (of_int (fst (random_randint 50 (SCREEN_WIDTH - 50) r)))
              (of_int (fst (random_randint 50 (SCREEN_HEIGHT - 50) (rng_drop 1 r)))) 3
              (rng_drop 2 r)"
  have "place_asteroid sh r = Some ?y"
    using assms by (subst place_asteroid_unfold) simp
  moreover have "?y = (fst ?y, rng_drop 13 r)"
    by (simp add: prod_eq_iff Asteroid_init_rng rng_drop_drop)
  ultimately have "place_asteroid sh r = Some (fst ?y, rng_drop 13 r)" by simp
  then show ?thesis ..
qed

lemma place_asteroid_returns:
  "accepts sh (rng_drop (2 * k) r) \<Longrightarrow> \<exists>a m. place_asteroid sh r = Some (a, rng_drop m r)"
proof (induction k arbitrary: r)
  case 0
  then have "accepts sh r" by (simp add: rng_drop_0)
  from place_asteroid_accepted [OF this] show ?case by blast
next
  case (Suc k)
  show ?case
  proof (cases "accepts sh r")
    case True
    from place_asteroid_accepted [OF this] show ?thesis by blast
  next
    case False
    from Suc.prems have "accepts sh (rng_drop (2 * k) (rng_drop 2 r))"
      by (simp add: rng_drop_drop)
    from Suc.IH [OF this] obtain a m where
      "place_asteroid sh (rng_drop 2 r) = Some (a, rng_drop m (rng_drop 2 r))"
      by blast
    with False have "place_asteroid sh r = Some (a, rng_drop (2 + m) r)"
      by (subst place_asteroid_unfold) (simp add: rng_drop_drop)
    then show ?thesis by blast
  qed
qed

lemma always_eventually_accepts_drop:
  "always_eventually_accepts sh r \<Longrightarrow> always_eventually_accepts sh (rng_drop m r)"
  unfolding always_eventually_accepts_def
proof
  fix n
  assume "\<forall>n. \<exists>k. accepts sh (rng_drop (n + 2 * k) r)"
  then obtain k where "accepts sh (rng_drop ((m + n) + 2 * k) r)" by blast
  then show "\<exists>k. accepts sh (rng_drop (n + 2 * k) (rng_drop m r))"
    by (auto simp: rng_drop_drop add.assoc)
qed

lemma place_asteroids_Some:
  "place_asteroids sh n acc r = Some (asts, r') \<Longrightarrow>
   length asts = length acc + n \<and> (\<forall>a \<in> set asts. a \<in> set acc \<or> placed_away sh a)"
proof (induction n arbitrary: acc r)
  case 0
  then show ?case by simp
next
  case (Suc n)
  from Suc.prems obtain a r1 where
    p: "place_asteroid sh r = Some (a, r1)" and
    rest: "place_asteroids sh n (acc @ [a]) r1 = Some (asts, r')"
    by (auto split: option.splits)
  from place_asteroid_Some(1) [OF p] have "placed_away sh a" .
  with Suc.IH [OF rest] show ?case by auto
qed

lemma place_asteroids_returns:
  "always_eventually_accepts sh r \<Longrightarrow> \<exists>asts m. place_asteroids sh n acc r = Some (asts, rng_drop m r)"
proof (induction n arbitrary: acc r)
  case 0
  have "r = rng_drop 0 r" by (simp add: rng_drop_0)
  then show ?case by (metis place_asteroids.simps(1))
next
  case (Suc n)
  from Suc.prems obtain k where "accepts sh (rng_drop (2 * k) r)"
    unfolding always_eventually_accepts_def by (metis add_0)
  from place_asteroid_returns [OF this] obtain a m where
    p: "place_asteroid sh r = Some (a, rng_drop m r)" by blast
  from Suc.IH [OF always_eventually_accepts_drop [OF Suc.prems], where acc = "acc @ [a]"]
  obtain asts m' where
    "place_asteroids sh n (acc @ [a]) (rng_drop m r) = Some (asts, rng_drop m' (rng_drop m r))"
    by blast
  with p have "place_asteroids sh (Suc n) acc r = Some (asts, rng_drop (m + m') r)"
    by (simp add: rng_drop_drop)
  then show ?case by blast
qed

lemma new_ship_fields:
  "position new_ship = \<lparr>vec_x = 400, vec_y = 300\<rparr>"
  "velocity new_ship = \<lparr>vec_x = 0, vec_y = 0\<rparr>"
  "invulnerable_time new_ship = 2"
  "health new_ship = 3" "max_health new_ship = 3" "active new_ship"
  "hyperspace_cooldown new_ship = 0" "radius new_ship = 8"
  by (simp_all add: new_ship_def Ship_init_def Let_def SCREEN_WIDTH_def SCREEN_HEIGHT_def)

lemma less_sqrt_iff: "0 \<le> c \<Longrightarrow> c < sqrt x \<longleftrightarrow> c\<^sup>2 < x"
  by (metis real_sqrt_less_iff real_sqrt_abs abs_of_nonneg)

lemma sqrt_less_iff: "0 \<le> c \<Longrightarrow> sqrt x < c \<longleftrightarrow> x < c\<^sup>2"
  by (metis real_sqrt_less_iff real_sqrt_abs abs_of_nonneg)

lemma accepts_zero_draws: "accepts new_ship zero_draws"
  by (simp add: accepts_def random_randint_def rng_tail_def zero_draws_def new_ship_fields
      less_sqrt_iff SCREEN_WIDTH_def SCREEN_HEIGHT_def)

lemma always_eventually_accepts_zero_draws: "always_eventually_accepts new_ship zero_draws"
  by (simp add: always_eventually_accepts_def rng_drop_zero_draws accepts_zero_draws)

lemma start_level_Some:
  assumes "start_level g r = Some (g', r')"
  shows "g' = g\<lparr>ship := Some new_ship, bullets := [], alien_ships := [], alien_bullets := [],
                 asteroids := asteroids g', alien_spawn_timer := 0\<rparr>"
    and "length (asteroids g') = nat (4 + level g)"
    and "\<forall>a \<in> set (asteroids g'). placed_away new_ship a"
proof -
  from assms obtain asts where
    p: "place_asteroids new_ship (nat (4 + level g)) [] r = Some (asts, r')" and
    g': "g' = g\<lparr>ship := Some new_ship, bullets := [], alien_ships := [], alien_bullets := [],
                  asteroids := asts, alien_spawn_timer := 0\<rparr>"
    by (auto simp: start_level_def Let_def split: option.splits)
  from g' show "g' = g\<lparr>ship := Some new_ship, bullets := [], alien_ships := [],
      alien_bullets := [], asteroids := asteroids g', alien_spawn_timer := 0\<rparr>"
    by simp
  from place_asteroids_Some [OF p] g' show "length (asteroids g') = nat (4 + level g)"
    and "\<forall>a \<in> set (asteroids g'). placed_away new_ship a"
    by simp_all
qed

lemma start_level_returns:
  assumes "always_eventually_accepts new_ship r"
  shows "\<exists>g' r'. start_level g r = Some (g', r')"
proof -
  from place_asteroids_returns [OF assms] obtain asts m where
    "place_asteroids new_ship (nat (4 + level g)) [] r = Some (asts, rng_drop m r)"
    by blast
  then show ?thesis by (simp add: start_level_def Let_def)
qed



section \<open>Collisions\<close>

lemma collides_with_iff:
  "collides_with p q \<longleftrightarrow>
     active p \<and> active q \<and> 0 < radius p + radius q \<and>
     (vec_x (position p) - vec_x (position q))\<^sup>2 + (vec_y (position p) - vec_y (position q))\<^sup>2
       < (radius p + radius q)\<^sup>2"
proof (cases "0 \<le> radius p + radius q")
  case True
  show ?thesis
  proof (cases "radius p + radius q = 0")
    case True
    then show ?thesis by (simp add: collides_with_def not_less)
  next
    case False
    with True show ?thesis by (auto simp: collides_with_def sqrt_less_iff)
  qed
next
  case False
  have "0 \<le> sqrt ((vec_x (position p) - vec_x (position q))\<^sup>2 +
                   (vec_y (position p) - vec_y (position q))\<^sup>2)" by simp
  with False have "\<not> sqrt ((vec_x (position p) - vec_x (position q))\<^sup>2 +
                   (vec_y (position p) - vec_y (position q))\<^sup>2) < radius p + radius q"
    by linarith
  with False show ?thesis unfolding collides_with_def by auto
qed

lemma first_hit_Some:
  "first_hit obj ts = Some i \<Longrightarrow>
   i < length ts \<and> collides_with obj (ts ! i) \<and> (\<forall>j<i. \<not> collides_with obj (ts ! j))"
proof (induction ts arbitrary: i)
  case Nil
  then show ?case by simp
next
  case (Cons t ts)
  show ?case
  proof (cases "collides_with obj t")
    case True
    with Cons.prems show ?thesis by simp
  next
    case False
    with Cons.prems obtain k where k: "first_hit obj ts = Some k" and i: "i = Suc k" by auto
    from Cons.IH [OF k] False show ?thesis by (auto simp: i less_Suc_eq_0_disj)
  qed
qed

lemma first_hit_None: "first_hit obj ts = None \<longleftrightarrow> (\<forall>t \<in> set ts. \<not> collides_with obj t)"
  by (induction ts) auto

lemma ship_hit_only_damage: "only_damage_fields s (ship_hit dtype damage s)"
  by (simp add: only_damage_fields_def ship_hit_def take_hit_def Let_def)

lemma only_damage_fields_refl: "only_damage_fields s s"
  by (simp add: only_damage_fields_def)

lemma asteroids_ship_passes:
  "asteroids (ship_vs_asteroids g) = asteroids g"
  "asteroids (ship_vs_aliens g) = asteroids g"
  "asteroids (ship_vs_alien_bullets g) = asteroids g"
  by (simp_all add: ship_vs_asteroids_def ship_vs_aliens_def ship_vs_alien_bullets_def
      split: option.splits)

lemma asteroids_check_collisions:
  "asteroids (fst (check_collisions g r)) =
     fst (snd (fst (bullets_vs_asteroids (bullets g) (asteroids g) (score g) r)))"
  by (simp add: check_collisions_def Let_def split_def asteroids_ship_passes)

subsection \<open>The ship against the asteroids\<close>

text \<open>
  Claim C10. The pass of the ship against the asteroids returns the asteroid list it
  was given: no asteroid is removed, deactivated or split, and nothing but the ship of
  the game changes. Of the ship only the fields a hit writes may differ (health, the
  timers \<open>invulnerable_time\<close> and \<open>hit_flash_time\<close> with the flash intensity,
  \<open>damage_type\<close>, \<open>active\<close>). When the exposed ship overlaps an asteroid, it takes one
  point of damage and the asteroid it rammed is still in its place and active. The
  later passes do not touch the asteroids either: the list \<open>check_collisions\<close> leaves
  is the one the bullets left.
\<close>

theorem ship_vs_asteroids_frame:
  "asteroids (ship_vs_asteroids g) = asteroids g \<and>
   ship_vs_asteroids g = g\<lparr>ship := ship (ship_vs_asteroids g)\<rparr> \<and>
   rel_option only_damage_fields (ship g) (ship (ship_vs_asteroids g)) \<and>
   (\<forall>s i. ship g = Some s \<and> active s \<and> invulnerable_time s \<le> 0 \<and>
          first_hit s (asteroids g) = Some i \<longrightarrow>
      ship (ship_vs_asteroids g) = Some (ship_hit ASTEROID 1 s) \<and>
      health (ship_hit ASTEROID 1 s) = health s - 1 \<and>
      i < length (asteroids g) \<and> collides_with s (asteroids g ! i) \<and>
      asteroids (ship_vs_asteroids g) ! i = asteroids g ! i \<and>
      active (asteroids (ship_vs_asteroids g) ! i)) \<and>
   asteroids (fst (check_collisions g r)) =
     fst (snd (fst (bullets_vs_asteroids (bullets g) (asteroids g) (score g) r)))"
proof (intro conjI allI impI)
  show "asteroids (ship_vs_asteroids g) = asteroids g" by (rule asteroids_ship_passes)
  show "ship_vs_asteroids g = g\<lparr>ship := ship (ship_vs_asteroids g)\<rparr>"
    by (simp add: ship_vs_asteroids_def split: option.splits)
  show "rel_option only_damage_fields (ship g) (ship (ship_vs_asteroids g))"
    by (cases "ship g")
       (auto simp: ship_vs_asteroids_def ship_exposed_def ship_hit_only_damage
          only_damage_fields_refl split: option.splits)
  show "asteroids (fst (check_collisions g r)) =
     fst (snd (fst (bullets_vs_asteroids (bullets g) (asteroids g) (score g) r)))"
    by (rule asteroids_check_collisions)
next
  fix s i
  assume a: "ship g = Some s \<and> active s \<and> invulnerable_time s \<le> 0 \<and>
             first_hit s (asteroids g) = Some i"
  then have hit: "first_hit s (asteroids g) = Some i" by simp
  note fh = first_hit_Some [OF hit]
  from a show "ship (ship_vs_asteroids g) = Some (ship_hit ASTEROID 1 s)"
    by (simp add: ship_vs_asteroids_def ship_exposed_def)
  from a show "health (ship_hit ASTEROID 1 s) = health s - 1"
    by (simp add: ship_hit_def take_hit_def Let_def)
  from fh show "i < length (asteroids g)" and "collides_with s (asteroids g ! i)" by simp_all
  show "asteroids (ship_vs_asteroids g) ! i = asteroids g ! i"
    by (simp add: asteroids_ship_passes)
  from fh show "active (asteroids (ship_vs_asteroids g) ! i)"
    by (simp add: asteroids_ship_passes collides_with_def split: if_splits)
qed

theorem ship_vs_asteroids_frame_witness:
  "ship ramming_game = Some (Ship_init 400 300) \<and> active (Ship_init 400 300) \<and>
   invulnerable_time (Ship_init 400 300) \<le> 0 \<and>
   first_hit (Ship_init 400 300) (asteroids ramming_game) = Some 0 \<and>
   map_option health (ship (ship_vs_asteroids ramming_game)) = Some 2 \<and>
   asteroids (ship_vs_asteroids ramming_game) = asteroids ramming_game \<and>
   map ast_size (asteroids (ship_vs_asteroids ramming_game)) = [3] \<and>
   map active (asteroids (ship_vs_asteroids ramming_game)) = [True]"
proof -
  have fh: "first_hit (Ship_init 400 300) (asteroids ramming_game) = Some 0"
    by (simp add: ramming_game_def collides_with_iff Asteroid_init_fields Ship_init_def)
  have pre: "ship ramming_game = Some (Ship_init 400 300) \<and> active (Ship_init 400 300) \<and>
    invulnerable_time (Ship_init 400 300) \<le> 0 \<and>
    first_hit (Ship_init 400 300) (asteroids ramming_game) = Some 0"
    using fh by (simp add: ramming_game_def Ship_init_def)
  have h: "health (Ship_init 400 300) = 3" by (simp add: Ship_init_def)
  have as: "asteroids ramming_game = [fst (Asteroid_init 410 300 3 zero_draws)]"
    by (simp add: ramming_game_def)
  from ship_vs_asteroids_frame [of ramming_game zero_draws] pre
  have "asteroids (ship_vs_asteroids ramming_game) = asteroids ramming_game"
    and "ship (ship_vs_asteroids ramming_game) = Some (ship_hit ASTEROID 1 (Ship_init 400 300))"
    and "health (ship_hit ASTEROID 1 (Ship_init 400 300)) = health (Ship_init 400 300) - 1"
    by blast+
  with pre h show ?thesis by (simp add: as Asteroid_init_fields)
qed

subsection \<open>Player bullets against asteroids and alien ships\<close>

lemma split_children_active:
  "split_children (a\<lparr>active := v\<rparr>) n r = split_children a n r"
  by (induction n arbitrary: r) (simp_all add: Let_def split_def)

lemma Asteroid_split_active: "Asteroid_split (a\<lparr>active := v\<rparr>) r = Asteroid_split a r"
  by (simp add: Asteroid_split_def split_children_active Let_def split_def)

lemma score_for_values: "score_for 1 = 100" "score_for 2 = 50" "score_for 3 = 20"
  by (simp_all add: score_for_def score_values_def)

lemma bullets_vs_asteroids_miss:
  "first_hit b asts = None \<Longrightarrow> bullets_vs_asteroids [b] asts sc r = (([b], asts, sc, []), r)"
  by simp

lemma bullets_vs_asteroids_hit:
  assumes "first_hit b asts = Some i"
  shows "bullets_vs_asteroids [b] asts sc r =
           (([], take i asts @ drop (Suc i) asts @ fst (Asteroid_split (asts ! i) r),
             sc + score_for (ast_size (asts ! i)),
             [(b\<lparr>active := False\<rparr>, (asts ! i)\<lparr>active := False\<rparr>)]),
            snd (Asteroid_split (asts ! i) r))"
proof -
  from first_hit_Some [OF assms] have "i < length asts" by simp
  then have "remove_at i (asts @ fst (Asteroid_split (asts ! i) r)) =
             take i asts @ drop (Suc i) asts @ fst (Asteroid_split (asts ! i) r)"
    by (simp add: remove_at_def)
  with assms show ?thesis by (simp add: Let_def split_def Asteroid_split_active)
qed

lemma bullets_vs_asteroids_Cons:
  "bullets_vs_asteroids (b # bs) asts sc r =
     (case bullets_vs_asteroids [b] asts sc r of
        ((kept, asts1, sc1, gone1), r1) \<Rightarrow>
          (case bullets_vs_asteroids bs asts1 sc1 r1 of
             ((bs', asts', sc', gone), r') \<Rightarrow> ((kept @ bs', asts', sc', gone1 @ gone), r')))"
  by (cases "first_hit b asts") (simp_all add: Let_def split_def)

lemma bullets_vs_asteroids_pass:
  "(case bullets_vs_asteroids bs asts sc r of
      ((bs', asts', sc', gone), r') \<Rightarrow>
        length bs' + length gone = length bs \<and>
        sc' = sc + sum_list (map (\<lambda>(b, a). score_for (ast_size a)) gone) \<and>
        list_all (\<lambda>(b, a). \<not> active b \<and> \<not> active a) gone)"
proof (induction bs arbitrary: asts sc r)
  case Nil
  then show ?case by simp
next
  case (Cons b bs)
  show ?case
  proof (cases "first_hit b asts")
    case None
    with Cons.IH [where asts = asts and sc = sc and r = r] show ?thesis
      by (simp add: split_def Let_def)
  next
    case (Some i)
    let ?a = "(asts ! i)\<lparr>active := False\<rparr>"
    from Cons.IH [where asts = "remove_at i (asts @ fst (Asteroid_split ?a r))"
        and sc = "sc + score_for (ast_size ?a)" and r = "snd (Asteroid_split ?a r)"] Some
    show ?thesis by (simp add: split_def Let_def)
  qed
qed

lemma bullets_vs_aliens_miss:
  "first_hit b als = None \<Longrightarrow> bullets_vs_aliens [b] als sc = ([b], als, sc, [])"
  by simp

lemma bullets_vs_aliens_hit:
  "first_hit b als = Some i \<Longrightarrow>
   bullets_vs_aliens [b] als sc =
     ([], take i als @ drop (Suc i) als, sc + 500,
      [(b\<lparr>active := False\<rparr>, (als ! i)\<lparr>active := False\<rparr>)])"
  by (simp add: Let_def remove_at_def)

lemma bullets_vs_aliens_Cons:
  "bullets_vs_aliens (b # bs) als sc =
     (case bullets_vs_aliens [b] als sc of
        (kept, als1, sc1, gone1) \<Rightarrow>
          (case bullets_vs_aliens bs als1 sc1 of
             (bs', als', sc', gone) \<Rightarrow> (kept @ bs', als', sc', gone1 @ gone)))"
  by (cases "first_hit b als") (simp_all add: Let_def split_def)

lemma bullets_vs_aliens_pass:
  "(case bullets_vs_aliens bs als sc of
      (bs', als', sc', gone) \<Rightarrow>
        length bs' + length gone = length bs \<and>
        length als' + length gone = length als \<and>
        sc' = sc + 500 * int (length gone) \<and>
        list_all (\<lambda>(b, a). \<not> active b \<and> \<not> active a) gone)"
proof (induction bs arbitrary: als sc)
  case Nil
  then show ?case by simp
next
  case (Cons b bs)
  show ?case
  proof (cases "first_hit b als")
    case None
    with Cons.IH [where als = als and sc = sc] show ?thesis
      by (simp add: split_def Let_def)
  next
    case (Some i)
    from first_hit_Some [OF Some] have i: "i < length als" by simp
    then have "length (remove_at i als) + 1 = length als"
      by (simp add: remove_at_def)
    with Cons.IH [where als = "remove_at i als" and sc = "sc + 500"] Some
    show ?thesis by (simp add: split_def Let_def)
  qed
qed

lemma ship_passes_frame:
  "bullets (ship_vs_asteroids g) = bullets g" "score (ship_vs_asteroids g) = score g"
  "alien_ships (ship_vs_asteroids g) = alien_ships g"
  "bullets (ship_vs_aliens g) = bullets g" "score (ship_vs_aliens g) = score g"
  "length (alien_ships (ship_vs_aliens g)) = length (alien_ships g)"
  "bullets (ship_vs_alien_bullets g) = bullets g" "score (ship_vs_alien_bullets g) = score g"
  "alien_ships (ship_vs_alien_bullets g) = alien_ships g"
  by (simp_all add: ship_vs_asteroids_def ship_vs_aliens_def ship_vs_alien_bullets_def
      split: option.splits)

lemma check_collisions_bullet_passes:
  "(case bullets_vs_asteroids (bullets g) (asteroids g) (score g) r of
      ((bs1, asts1, sc1, gone1), r1) \<Rightarrow>
        (case bullets_vs_aliens bs1 (alien_ships g) sc1 of
           (bs2, als2, sc2, gone2) \<Rightarrow>
             bullets (fst (check_collisions g r)) = bs2 \<and>
             asteroids (fst (check_collisions g r)) = asts1 \<and>
             score (fst (check_collisions g r)) = sc2 \<and>
             length (alien_ships (fst (check_collisions g r))) = length als2 \<and>
             snd (check_collisions g r) = r1))"
  by (simp add: check_collisions_def Let_def split_def ship_passes_frame asteroids_ship_passes)

lemma AlienShip_init_fields:
  "position (fst (AlienShip_init px py r)) = \<lparr>vec_x = px, vec_y = py\<rparr>"
  "radius (fst (AlienShip_init px py r)) = 12"
  "active (fst (AlienShip_init px py r))"
  by (simp_all add: AlienShip_init_def Let_def split_def)

lemma Bullet_init_fields:
  "position (Bullet_init px py rot) = \<lparr>vec_x = px, vec_y = py\<rparr>"
  "radius (Bullet_init px py rot) = 2"
  "active (Bullet_init px py rot)"
  "lifetime (Bullet_init px py rot) = 2"
  "velocity (Bullet_init px py rot) = heading rot 400"
  by (simp_all add: Bullet_init_def)

text \<open>
  Claim C4. A bullet that collides with no asteroid changes nothing. A bullet that
  collides hits the first asteroid of the list it collides with, and only that one:
  the bullet leaves the bullets, that asteroid leaves the asteroids, the results of its
  \<open>split\<close> are appended at the end, the score grows by the value of its size (100, 50
  and 20 for the sizes 1, 2 and 3), and both objects are left inactive. A pass over
  several bullets is the pass of the first bullet followed by the pass of the others on
  the resulting list; over a whole pass every bullet that is gone is paired with one
  asteroid, and the score grows by the sum of their values. Against alien ships the
  same holds with the flat value 500 and no children: one hit removes exactly one
  bullet and one alien ship. \<open>check_collisions\<close> runs the two passes in this order on
  the bullets, asteroids, alien ships and score of the game.
\<close>

theorem bullet_hits_spec:
  "(first_hit b asts = None \<longrightarrow>
      bullets_vs_asteroids [b] asts sc r = (([b], asts, sc, []), r)) \<and>
   (\<forall>i. first_hit b asts = Some i \<longrightarrow>
      i < length asts \<and> collides_with b (asts ! i) \<and>
      (\<forall>j<i. \<not> collides_with b (asts ! j)) \<and>
      bullets_vs_asteroids [b] asts sc r =
        (([], take i asts @ drop (Suc i) asts @ fst (Asteroid_split (asts ! i) r),
          sc + score_for (ast_size (asts ! i)),
          [(b\<lparr>active := False\<rparr>, (asts ! i)\<lparr>active := False\<rparr>)]),
         snd (Asteroid_split (asts ! i) r))) \<and>
   score_for 1 = 100 \<and> score_for 2 = 50 \<and> score_for 3 = 20 \<and>
   bullets_vs_asteroids (b # bs) asts sc r =
     (case bullets_vs_asteroids [b] asts sc r of
        ((kept, asts1, sc1, gone1), r1) \<Rightarrow>
          (case bullets_vs_asteroids bs asts1 sc1 r1 of
             ((bs', asts', sc', gone), r') \<Rightarrow> ((kept @ bs', asts', sc', gone1 @ gone), r'))) \<and>
   (case bullets_vs_asteroids bs asts sc r of
      ((bs', asts', sc', gone), r') \<Rightarrow>
        length bs' + length gone = length bs \<and>
        sc' = sc + sum_list (map (\<lambda>(b, a). score_for (ast_size a)) gone) \<and>
        list_all (\<lambda>(b, a). \<not> active b \<and> \<not> active a) gone) \<and>
   (first_hit b als = None \<longrightarrow> bullets_vs_aliens [b] als sc = ([b], als, sc, [])) \<and>
   (\<forall>i. first_hit b als = Some i \<longrightarrow>
      i < length als \<and> collides_with b (als ! i) \<and>
      (\<forall>j<i. \<not> collides_with b (als ! j)) \<and>
      bullets_vs_aliens [b] als sc =
        ([], take i als @ drop (Suc i) als, sc + 500,
         [(b\<lparr>active := False\<rparr>, (als ! i)\<lparr>active := False\<rparr>)])) \<and>
   bullets_vs_aliens (b # bs) als sc =
     (case bullets_vs_aliens [b] als sc of
        (kept, als1, sc1, gone1) \<Rightarrow>
          (case bullets_vs_aliens bs als1 sc1 of
             (bs', als', sc', gone) \<Rightarrow> (kept @ bs', als', sc', gone1 @ gone))) \<and>
   (case bullets_vs_aliens bs als sc of
      (bs', als', sc', gone) \<Rightarrow>
        length bs' + length gone = length bs \<and>
        length als' + length gone = length als \<and>
        sc' = sc + 500 * int (length gone) \<and>
        list_all (\<lambda>(b, a). \<not> active b \<and> \<not> active a) gone) \<and>
   (case bullets_vs_asteroids (bullets g) (asteroids g) (score g) r of
      ((bs1, asts1, sc1, gone1), r1) \<Rightarrow>
        (case bullets_vs_aliens bs1 (alien_ships g) sc1 of
           (bs2, als2, sc2, gone2) \<Rightarrow>
             bullets (fst (check_collisions g r)) = bs2 \<and>
             asteroids (fst (check_collisions g r)) = asts1 \<and>
             score (fst (check_collisions g r)) = sc2 \<and>
             length (alien_ships (fst (check_collisions g r))) = length als2 \<and>
             snd (check_collisions g r) = r1))"
proof -
  have hitA: "i < length asts \<and> collides_with b (asts ! i) \<and>
      (\<forall>j<i. \<not> collides_with b (asts ! j)) \<and>
      bullets_vs_asteroids [b] asts sc r =
        (([], take i asts @ drop (Suc i) asts @ fst (Asteroid_split (asts ! i) r),
          sc + score_for (ast_size (asts ! i)),
          [(b\<lparr>active := False\<rparr>, (asts ! i)\<lparr>active := False\<rparr>)]),
         snd (Asteroid_split (asts ! i) r))" if "first_hit b asts = Some i" for i
    using first_hit_Some [OF that] bullets_vs_asteroids_hit [OF that, of sc r] by simp
  have hitB: "i < length als \<and> collides_with b (als ! i) \<and>
      (\<forall>j<i. \<not> collides_with b (als ! j)) \<and>
      bullets_vs_aliens [b] als sc =
        ([], take i als @ drop (Suc i) als, sc + 500,
         [(b\<lparr>active := False\<rparr>, (als ! i)\<lparr>active := False\<rparr>)])" if "first_hit b als = Some i" for i
    using first_hit_Some [OF that] bullets_vs_aliens_hit [OF that, of sc] by simp
  show ?thesis
    by (intro conjI allI impI hitA hitB bullets_vs_asteroids_miss bullets_vs_aliens_miss
        score_for_values bullets_vs_asteroids_Cons bullets_vs_aliens_Cons
        bullets_vs_asteroids_pass bullets_vs_aliens_pass check_collisions_bullet_passes)
qed

lemma split_medium_zero_draws:
  "map ast_size (fst (Asteroid_split (fst (Asteroid_init 100 110 2 zero_draws)) zero_draws)) = [1, 1]"
proof -
  let ?a = "fst (Asteroid_init 100 110 2 zero_draws)"
  have n: "nat (fst (random_randint 2 3 zero_draws)) = Suc (Suc 0)"
    by (simp add: random_randint_def zero_draws_def)
  show ?thesis
    by (simp add: Asteroid_split_large Asteroid_init_fields n split_children_Suc
        del: split_children.simps(2))
qed

theorem bullet_hits_spec_witness:
  "first_hit (Bullet_init 100 100 0) [fst (Asteroid_init 500 500 3 zero_draws)] = None \<and>
   first_hit (Bullet_init 100 100 0)
     [fst (Asteroid_init 500 500 3 zero_draws), fst (Asteroid_init 100 110 2 zero_draws)] = Some 1 \<and>
   (case bullets_vs_asteroids [Bullet_init 100 100 0]
           [fst (Asteroid_init 500 500 3 zero_draws), fst (Asteroid_init 100 110 2 zero_draws)]
           0 zero_draws of
      ((bs', asts', sc', gone), r') \<Rightarrow>
        bs' = [] \<and> sc' = 50 \<and> map ast_size asts' = [3, 1, 1] \<and> length gone = 1) \<and>
   first_hit (Bullet_init 100 100 0) [fst (AlienShip_init 100 105 zero_draws)] = Some 0 \<and>
   bullets_vs_aliens [Bullet_init 100 100 0] [fst (AlienShip_init 100 105 zero_draws)] 0 =
     ([], [], 500,
      [((Bullet_init 100 100 0)\<lparr>active := False\<rparr>,
        (fst (AlienShip_init 100 105 zero_draws))\<lparr>active := False\<rparr>)])"
proof -
  let ?b = "Bullet_init 100 100 0"
  let ?far = "fst (Asteroid_init 500 500 3 zero_draws)"
  let ?a = "fst (Asteroid_init 100 110 2 zero_draws)"
  let ?al = "fst (AlienShip_init 100 105 zero_draws)"
  have m: "first_hit ?b [?far] = None"
    by (simp add: collides_with_iff Asteroid_init_fields Bullet_init_fields)
  have h: "first_hit ?b [?far, ?a] = Some 1"
    by (simp add: collides_with_iff Asteroid_init_fields Bullet_init_fields)
  have ha: "first_hit ?b [?al] = Some 0"
    by (simp add: collides_with_iff AlienShip_init_fields Bullet_init_fields)
  have kids: "map ast_size (fst (Asteroid_split ?a zero_draws)) = [1, 1]"
    using split_medium_zero_draws by simp
  note t = bullet_hits_spec [of ?b "[?far, ?a]" 0 zero_draws "[]" "[?al]"]
  from t h have "bullets_vs_asteroids [?b] [?far, ?a] 0 zero_draws =
        (([], take 1 [?far, ?a] @ drop (Suc 1) [?far, ?a] @ fst (Asteroid_split ([?far, ?a] ! 1) zero_draws),
          0 + score_for (ast_size ([?far, ?a] ! 1)),
          [(?b\<lparr>active := False\<rparr>, ([?far, ?a] ! 1)\<lparr>active := False\<rparr>)]),
         snd (Asteroid_split ([?far, ?a] ! 1) zero_draws))"
    by blast
  moreover from t ha have "bullets_vs_aliens [?b] [?al] 0 =
        ([], take 0 [?al] @ drop (Suc 0) [?al], 0 + 500,
         [(?b\<lparr>active := False\<rparr>, ([?al] ! 0)\<lparr>active := False\<rparr>)])"
    by blast
  ultimately show ?thesis
    using m h ha kids by (simp add: Asteroid_init_fields score_for_values)
qed

section \<open>The tick\<close>

lemma update_objects_frame:
  "level (fst (update_objects dt g r)) = level g"
  "lives (fst (update_objects dt g r)) = lives g"
  "score (fst (update_objects dt g r)) = score g"
  "state (fst (update_objects dt g r)) = state g"
  by (simp_all add: update_objects_def spawn_alien_def Let_def split_def)

lemma ship_passes_level:
  "level (ship_vs_asteroids g) = level g" "lives (ship_vs_asteroids g) = lives g"
  "state (ship_vs_asteroids g) = state g"
  "level (ship_vs_aliens g) = level g" "lives (ship_vs_aliens g) = lives g"
  "state (ship_vs_aliens g) = state g"
  "level (ship_vs_alien_bullets g) = level g" "lives (ship_vs_alien_bullets g) = lives g"
  "state (ship_vs_alien_bullets g) = state g"
  by (simp_all add: ship_vs_asteroids_def ship_vs_aliens_def ship_vs_alien_bullets_def
      split: option.splits)

lemma check_collisions_frame:
  "level (fst (check_collisions g r)) = level g"
  "lives (fst (check_collisions g r)) = lives g"
  "state (fst (check_collisions g r)) = state g"
  by (simp_all add: check_collisions_def Let_def split_def ship_passes_level)

lemma after_collisions_frame:
  "level (fst (after_collisions dt g r)) = level g"
  "lives (fst (after_collisions dt g r)) = lives g"
  "state (fst (after_collisions dt g r)) = state g"
  by (simp_all add: after_collisions_def Let_def split_def check_collisions_frame
      update_objects_frame)

lemma check_game_over_level: "level (check_game_over g) = level g"
  by (simp add: check_game_over_def Let_def split: option.splits)

lemma start_level_ship_active:
  assumes "start_level g r = Some (g', r')"
  shows "check_game_over g' = g'" and "lives g' = lives g" and "level g' = level g"
    and "state g' = state g" and "ship g' = Some new_ship"
proof -
  note s = start_level_Some(1) [OF assms]
  show sh: "ship g' = Some new_ship" by (subst s) simp
  show "lives g' = lives g" "level g' = level g" "state g' = state g" by (subst s, simp)+
  from sh show "check_game_over g' = g'" by (simp add: check_game_over_def new_ship_fields)
qed

lemma Game_update_not_playing: "state g \<noteq> PLAYING \<Longrightarrow> Game_update dt g r = Some (g, r)"
  by (simp add: Game_update_def)

lemma Game_update_level_stays:
  assumes "state g = PLAYING"
    and "asteroids (fst (after_collisions dt g r)) \<noteq> [] \<or>
         alien_ships (fst (after_collisions dt g r)) \<noteq> []"
  shows "Game_update dt g r =
           Some (check_game_over (fst (after_collisions dt g r)), snd (after_collisions dt g r))"
  using assms by (auto simp: Game_update_def check_level_completion_def split_def Let_def)

lemma Game_update_level_up:
  assumes "state g = PLAYING"
    and "asteroids (fst (after_collisions dt g r)) = []"
    and "alien_ships (fst (after_collisions dt g r)) = []"
  shows "Game_update dt g r =
           start_level ((fst (after_collisions dt g r))\<lparr>level := level g + 1\<rparr>)
             (snd (after_collisions dt g r))"
proof (cases "start_level ((fst (after_collisions dt g r))\<lparr>level := level g + 1\<rparr>)
                (snd (after_collisions dt g r))")
  case None
  with assms show ?thesis
    by (simp add: Game_update_def check_level_completion_def split_def Let_def
        after_collisions_frame)
next
  case (Some y)
  obtain g2 r2 where y: "y = (g2, r2)" by (cases y)
  from Some have "check_game_over g2 = g2" unfolding y by (rule start_level_ship_active)
  with assms Some show ?thesis
    by (simp add: Game_update_def check_level_completion_def split_def Let_def
        after_collisions_frame y)
qed

subsection \<open>A tick that clears the level while the ship is destroyed\<close>

lemma float_mod_id: "0 < b \<Longrightarrow> 0 \<le> a \<Longrightarrow> a < b \<Longrightarrow> float_mod a b = a"
proof -
  assume "0 < b" "0 \<le> a" "a < b"
  then have "\<lfloor>a / b\<rfloor> = 0" by (simp add: floor_eq_iff)
  then show ?thesis by (simp add: float_mod_def)
qed

lemma heading_0: "heading 0 speed = \<lparr>vec_x = 0, vec_y = - speed\<rparr>"
  by (simp add: heading_def radians_def)

lemma uniform_zero_draws: "random_uniform a b zero_draws = (a, zero_draws)"
  by (simp add: random_uniform_def random_random_def zero_draws_def rng_tail_def)

lemma Asteroid_init_velocity_zero_draws:
  "velocity (fst (Asteroid_init px py sz zero_draws)) = \<lparr>vec_x = 0, vec_y = - 20\<rparr>"
  "rotation (fst (Asteroid_init px py sz zero_draws)) = 0"
  by (simp_all add: Asteroid_init_def Let_def split_def uniform_zero_draws heading_0)

lemma last_shot_objects:
  "update_objects (1 / 50) last_shot_game zero_draws =
     (last_shot_game
        \<lparr>ship := Some (Ship_update (1 / 50) ((Ship_init 400 300)\<lparr>health := 1\<rparr>)),
         bullets := [Bullet_update (1 / 50) ((Bullet_init 100 120 0)\<lparr>lifetime := 1\<rparr>)],
         asteroids := [Asteroid_update (1 / 50) (fst (Asteroid_init 100 95 1 zero_draws))],
         alien_bullets := [Bullet_update (1 / 50) ((Bullet_init 400 317 0)\<lparr>lifetime := 1\<rparr>)],
         alien_spawn_timer := 1 / 50\<rparr>, zero_draws)"
  by (simp add: update_objects_def last_shot_game_def Let_def update_bullets_def
      Bullet_update_def Bullet_init_def GameObject_update_def)

lemma last_shot_bullet:
  "position (Bullet_update (1 / 50) ((Bullet_init 100 120 0)\<lparr>lifetime := 1\<rparr>)) =
     \<lparr>vec_x = 100, vec_y = 112\<rparr>"
  "radius (Bullet_update (1 / 50) ((Bullet_init 100 120 0)\<lparr>lifetime := 1\<rparr>)) = 2"
  "active (Bullet_update (1 / 50) ((Bullet_init 100 120 0)\<lparr>lifetime := 1\<rparr>))"
  by (simp_all add: Bullet_update_def Bullet_init_def GameObject_update_def Let_def heading_0
      Vector2_add_def Vector2_mul_def float_mod_def SCREEN_WIDTH_def SCREEN_HEIGHT_def)

lemma last_shot_alien_bullet:
  "position (Bullet_update (1 / 50) ((Bullet_init 400 317 0)\<lparr>lifetime := 1\<rparr>)) =
     \<lparr>vec_x = 400, vec_y = 309\<rparr>"
  "radius (Bullet_update (1 / 50) ((Bullet_init 400 317 0)\<lparr>lifetime := 1\<rparr>)) = 2"
  "active (Bullet_update (1 / 50) ((Bullet_init 400 317 0)\<lparr>lifetime := 1\<rparr>))"
  by (simp_all add: Bullet_update_def Bullet_init_def GameObject_update_def Let_def heading_0
      Vector2_add_def Vector2_mul_def float_mod_def SCREEN_WIDTH_def SCREEN_HEIGHT_def)

lemma last_shot_asteroid:
  "position (Asteroid_update (1 / 50) (fst (Asteroid_init 100 95 1 zero_draws))) =
     \<lparr>vec_x = 100, vec_y = 473 / 5\<rparr>"
  "radius (Asteroid_update (1 / 50) (fst (Asteroid_init 100 95 1 zero_draws))) = 18"
  "active (Asteroid_update (1 / 50) (fst (Asteroid_init 100 95 1 zero_draws)))"
  "ast_size (Asteroid_update (1 / 50) (fst (Asteroid_init 100 95 1 zero_draws))) = 1"
  by (simp_all add: Asteroid_update_def GameObject_update_def Let_def Asteroid_init_fields
      Asteroid_init_velocity_zero_draws Vector2_add_def Vector2_mul_def float_mod_def
      SCREEN_WIDTH_def SCREEN_HEIGHT_def)

lemma last_shot_ship:
  "position (Ship_update (1 / 50) ((Ship_init 400 300)\<lparr>health := 1\<rparr>)) =
     \<lparr>vec_x = 400, vec_y = 300\<rparr>"
  "radius (Ship_update (1 / 50) ((Ship_init 400 300)\<lparr>health := 1\<rparr>)) = 8"
  "active (Ship_update (1 / 50) ((Ship_init 400 300)\<lparr>health := 1\<rparr>))"
  "invulnerable_time (Ship_update (1 / 50) ((Ship_init 400 300)\<lparr>health := 1\<rparr>)) = 0"
  "health (Ship_update (1 / 50) ((Ship_init 400 300)\<lparr>health := 1\<rparr>)) = 1"
  by (simp_all add: Ship_update_def Ship_init_def GameObject_update_def Let_def
      Vector2_add_def Vector2_mul_def float_mod_def SCREEN_WIDTH_def SCREEN_HEIGHT_def)

lemma last_shot_after_collisions:
  "after_collisions (1 / 50) last_shot_game zero_draws =
     (last_shot_game
        \<lparr>ship := Some (ship_hit ALIEN_BULLET 1
                   (Ship_update (1 / 50) ((Ship_init 400 300)\<lparr>health := 1\<rparr>))),
         bullets := [], asteroids := [], alien_bullets := [], score := 100,
         alien_spawn_timer := 1 / 50\<rparr>, zero_draws)"
proof -
  let ?b = "Bullet_update (1 / 50) ((Bullet_init 100 120 0)\<lparr>lifetime := 1\<rparr>)"
  let ?a = "Asteroid_update (1 / 50) (fst (Asteroid_init 100 95 1 zero_draws))"
  let ?ab = "Bullet_update (1 / 50) ((Bullet_init 400 317 0)\<lparr>lifetime := 1\<rparr>)"
  let ?s = "Ship_update (1 / 50) ((Ship_init 400 300)\<lparr>health := 1\<rparr>)"
  have h1: "first_hit ?b [?a] = Some 0"
    by (simp add: collides_with_iff last_shot_bullet last_shot_asteroid power2_eq_square)
  have sp: "Asteroid_split ?a zero_draws = ([], zero_draws)"
    by (simp add: Asteroid_split_def last_shot_asteroid)
  have p1: "bullets_vs_asteroids [?b] [?a] 0 zero_draws =
              (([], [], 100, [(?b\<lparr>active := False\<rparr>, ?a\<lparr>active := False\<rparr>)]), zero_draws)"
    using bullets_vs_asteroids_hit [OF h1, of 0 zero_draws]
    by (simp add: sp score_for_values last_shot_asteroid)
  have h5: "first_hit ?s [?ab] = Some 0"
    by (simp add: collides_with_iff last_shot_ship last_shot_alien_bullet)
  let ?g1 = "last_shot_game
        \<lparr>ship := Some ?s, bullets := [?b], asteroids := [?a], alien_bullets := [?ab],
         alien_spawn_timer := 1 / 50\<rparr>"
  have f: "score last_shot_game = 0" "alien_ships last_shot_game = []"
    by (simp_all add: last_shot_game_def)
  have oc: "after_collisions (1 / 50) last_shot_game zero_draws = check_collisions ?g1 zero_draws"
    by (simp add: after_collisions_def last_shot_objects)
  let ?g2 = "last_shot_game
        \<lparr>ship := Some ?s, bullets := [], asteroids := [], alien_bullets := [?ab],
         alien_spawn_timer := 1 / 50, score := 100\<rparr>"
  have exposed: "ship_exposed ?g2" by (simp add: ship_exposed_def last_shot_ship)
  have s3: "ship_vs_asteroids ?g2 = ?g2" by (simp add: ship_vs_asteroids_def)
  have s4: "ship_vs_aliens ?g2 = ?g2" by (simp add: ship_vs_aliens_def f)
  have s5: "ship_vs_alien_bullets ?g2 =
              ?g2\<lparr>ship := Some (ship_hit ALIEN_BULLET 1 ?s), alien_bullets := []\<rparr>"
    using exposed h5 by (simp add: ship_vs_alien_bullets_def remove_at_def)
  have "check_collisions ?g1 zero_draws = (ship_vs_alien_bullets (ship_vs_aliens (ship_vs_asteroids ?g2)), zero_draws)"
    by (simp add: check_collisions_def p1 last_shot_game_def del: bullets_vs_asteroids.simps)
  then show ?thesis by (simp add: oc s3 s4 s5)
qed

lemma last_shot_ship_destroyed:
  "active (ship_hit ALIEN_BULLET 1 (Ship_update (1 / 50) ((Ship_init 400 300)\<lparr>health := 1\<rparr>)))
     = False"
  "health (ship_hit ALIEN_BULLET 1 (Ship_update (1 / 50) ((Ship_init 400 300)\<lparr>health := 1\<rparr>)))
     = 0"
  by (simp_all add: ship_hit_def take_hit_def Let_def last_shot_ship)

lemma last_shot_fields:
  "state last_shot_game = PLAYING" "level last_shot_game = 1" "lives last_shot_game = 3"
  "alien_ships last_shot_game = []"
  "map_option active (ship last_shot_game) = Some True"
  by (simp_all add: last_shot_game_def Ship_init_def)

lemma update_objects_lists:
  "bullets (fst (update_objects dt g r)) = update_bullets dt (bullets g)"
  "asteroids (fst (update_objects dt g r)) = map (Asteroid_update dt) (asteroids g)"
  by (simp_all add: update_objects_def spawn_alien_def Let_def split_def)

lemma after_collisions_no_bullets:
  assumes "bullets g = []"
  shows "asteroids (fst (after_collisions dt g r)) = map (Asteroid_update dt) (asteroids g)"
  using assms
  by (simp add: after_collisions_def split_def Let_def asteroids_check_collisions
      update_objects_lists update_bullets_def)

subsection \<open>Level completion\<close>

text \<open>
  Claim C5. In a tick of the Playing state, let \<open>after_collisions\<close> be the game when
  \<open>check_collisions\<close> has returned. If its asteroids or its alien ships are not empty,
  the tick returns and leaves the level as it was. If both are empty, the tick is
  \<open>start_level\<close> on that game with the level raised by one: every result has the level
  raised by exactly one, and there is a result whenever the random source always
  eventually offers an acceptable point to the placement loop. The test is made once,
  on the game the collisions left.
\<close>

theorem level_advance_spec:
  assumes "state g = PLAYING"
  shows "(asteroids (fst (after_collisions dt g r)) \<noteq> [] \<or>
          alien_ships (fst (after_collisions dt g r)) \<noteq> [] \<longrightarrow>
            (\<exists>g' r'. Game_update dt g r = Some (g', r') \<and> level g' = level g)) \<and>
         (asteroids (fst (after_collisions dt g r)) = [] \<and>
          alien_ships (fst (after_collisions dt g r)) = [] \<longrightarrow>
            Game_update dt g r =
              start_level ((fst (after_collisions dt g r))\<lparr>level := level g + 1\<rparr>)
                (snd (after_collisions dt g r)) \<and>
            (\<forall>g' r'. Game_update dt g r = Some (g', r') \<longrightarrow> level g' = level g + 1) \<and>
            (always_eventually_accepts new_ship (snd (after_collisions dt g r)) \<longrightarrow>
               (\<exists>g' r'. Game_update dt g r = Some (g', r') \<and> level g' = level g + 1)))"
proof (intro conjI impI)
  assume "asteroids (fst (after_collisions dt g r)) \<noteq> [] \<or>
          alien_ships (fst (after_collisions dt g r)) \<noteq> []"
  from Game_update_level_stays [OF assms this]
  show "\<exists>g' r'. Game_update dt g r = Some (g', r') \<and> level g' = level g"
    by (simp add: check_game_over_level after_collisions_frame)
next
  assume e: "asteroids (fst (after_collisions dt g r)) = [] \<and>
             alien_ships (fst (after_collisions dt g r)) = []"
  then have up: "Game_update dt g r =
      start_level ((fst (after_collisions dt g r))\<lparr>level := level g + 1\<rparr>)
        (snd (after_collisions dt g r))"
    using Game_update_level_up [OF assms] by simp
  then show "Game_update dt g r =
      start_level ((fst (after_collisions dt g r))\<lparr>level := level g + 1\<rparr>)
        (snd (after_collisions dt g r))" .
  have lv: "level g' = level g + 1" if "Game_update dt g r = Some (g', r')" for g' r'
    using start_level_ship_active(3) [of _ _ g' r'] that up by simp
  then show "\<forall>g' r'. Game_update dt g r = Some (g', r') \<longrightarrow> level g' = level g + 1" by blast
  assume "always_eventually_accepts new_ship (snd (after_collisions dt g r))"
  from start_level_returns [OF this] obtain g' r' where
    "start_level ((fst (after_collisions dt g r))\<lparr>level := level g + 1\<rparr>)
       (snd (after_collisions dt g r)) = Some (g', r')" by blast
  with up have "Game_update dt g r = Some (g', r')" by simp
  with lv show "\<exists>g' r'. Game_update dt g r = Some (g', r') \<and> level g' = level g + 1" by blast
qed

theorem level_advance_spec_witness:
  "state ramming_game = PLAYING \<and>
   asteroids (fst (after_collisions (1 / 50) ramming_game zero_draws)) \<noteq> [] \<and>
   (case Game_update (1 / 50) ramming_game zero_draws of
      None \<Rightarrow> False | Some (g', r') \<Rightarrow> level g' = 1) \<and>
   state last_shot_game = PLAYING \<and>
   asteroids (fst (after_collisions (1 / 50) last_shot_game zero_draws)) = [] \<and>
   alien_ships (fst (after_collisions (1 / 50) last_shot_game zero_draws)) = [] \<and>
   always_eventually_accepts new_ship (snd (after_collisions (1 / 50) last_shot_game zero_draws)) \<and>
   (case Game_update (1 / 50) last_shot_game zero_draws of
      None \<Rightarrow> False | Some (g', r') \<Rightarrow> level g' = 2)"
proof -
  have r1: "state ramming_game = PLAYING" "level ramming_game = 1"
    by (simp_all add: ramming_game_def Game_init_def)
  have r2: "asteroids (fst (after_collisions (1 / 50) ramming_game zero_draws)) \<noteq> []"
    by (simp add: after_collisions_no_bullets ramming_game_def Game_init_def)
  have l1: "state last_shot_game = PLAYING" "level last_shot_game = 1"
    by (simp_all add: last_shot_game_def)
  have l2: "asteroids (fst (after_collisions (1 / 50) last_shot_game zero_draws)) = []"
    "alien_ships (fst (after_collisions (1 / 50) last_shot_game zero_draws)) = []"
    "snd (after_collisions (1 / 50) last_shot_game zero_draws) = zero_draws"
    by (simp_all add: last_shot_after_collisions last_shot_fields)
  have ae: "always_eventually_accepts new_ship
              (snd (after_collisions (1 / 50) last_shot_game zero_draws))"
    by (simp add: l2(3) always_eventually_accepts_zero_draws)
  from level_advance_spec [OF r1(1), of "1 / 50" zero_draws] r2
  have "\<exists>g' r'. Game_update (1 / 50) ramming_game zero_draws = Some (g', r') \<and>
          level g' = level ramming_game"
    by blast
  then obtain g' r' where a: "Game_update (1 / 50) ramming_game zero_draws = Some (g', r')"
    and a': "level g' = 1" by (auto simp: r1(2))
  from level_advance_spec [OF l1(1), of "1 / 50" zero_draws] l2(1) l2(2) ae
  have "\<exists>g' r'. Game_update (1 / 50) last_shot_game zero_draws = Some (g', r') \<and>
          level g' = level last_shot_game + 1"
    by blast
  then obtain g'' r'' where b: "Game_update (1 / 50) last_shot_game zero_draws = Some (g'', r'')"
    and b': "level g'' = 2" by (auto simp: l1(2))
  from a a' b b' r1(1) r2 l1(1) l2(1) l2(2) ae show ?thesis by simp
qed

subsection \<open>Loss of a life\<close>

text \<open>
  The block \<^verbatim>\<open># Check game over\<close>, taken alone, does what claim C7 says whenever it
  finds the ship inactive: one life less, then \<open>GAME_OVER\<close> if no life is left and a
  new ship otherwise; asteroids, bullets, alien bullets, alien ships, score and level
  stay. A tick that leaves an asteroid or an alien ship reaches this block with the
  ship as the collisions left it.
\<close>

lemma check_game_over_spec:
  assumes "ship g = Some s" and "\<not> active s"
  shows "lives (check_game_over g) = lives g - 1"
    and "lives g - 1 \<le> 0 \<Longrightarrow> check_game_over g = g\<lparr>lives := lives g - 1, state := GAME_OVER\<rparr>"
    and "0 < lives g - 1 \<Longrightarrow> check_game_over g = g\<lparr>lives := lives g - 1, ship := Some new_ship\<rparr>"
    and "asteroids (check_game_over g) = asteroids g"
    and "bullets (check_game_over g) = bullets g"
    and "alien_bullets (check_game_over g) = alien_bullets g"
    and "alien_ships (check_game_over g) = alien_ships g"
    and "score (check_game_over g) = score g"
    and "level (check_game_over g) = level g"
  using assms by (simp_all add: check_game_over_def Let_def)

lemma check_game_over_idle:
  "ship g = None \<or> (\<exists>s. ship g = Some s \<and> active s) \<Longrightarrow> check_game_over g = g"
  by (auto simp: check_game_over_def)

lemma Game_update_life_loss:
  assumes "state g = PLAYING"
    and "asteroids (fst (after_collisions dt g r)) \<noteq> [] \<or>
         alien_ships (fst (after_collisions dt g r)) \<noteq> []"
    and "ship (fst (after_collisions dt g r)) = Some s" and "\<not> active s"
  shows "\<exists>g' r'. Game_update dt g r = Some (g', r') \<and> lives g' = lives g - 1"
  using Game_update_level_stays [OF assms(1,2)] check_game_over_spec(1) [OF assms(3,4)]
  by (simp add: after_collisions_frame)

text \<open>
  Claim C7 says that a ship that becomes inactive during a Playing tick always costs a
  life. The tick does not do that when the same tick clears the level: the block
  \<^verbatim>\<open># Check level completion\<close> runs first, \<open>start_level\<close> puts a new ship in place of
  the destroyed one, and the block \<^verbatim>\<open># Check game over\<close> then finds an active ship.
  In \<open>last_shot_game\<close> the player's bullet destroys the last asteroid and the alien
  bullet destroys the ship in one tick of \<open>1 / 50\<close> seconds: the ship is active before
  the tick and inactive after the collisions, and the tick ends in level 2 with a new
  ship and all 3 lives.
\<close>

theorem destroyed_ship_keeps_life:
  "state last_shot_game = PLAYING \<and> lives last_shot_game = 3 \<and> level last_shot_game = 1 \<and>
   map_option active (ship last_shot_game) = Some True \<and>
   map_option active (ship (fst (after_collisions (1 / 50) last_shot_game zero_draws))) =
     Some False \<and>
   map_option (\<lambda>(g', r'). (lives g', level g', state g', ship g'))
     (Game_update (1 / 50) last_shot_game zero_draws) = Some (3, 2, PLAYING, Some new_ship)"
proof -
  have l1: "state last_shot_game = PLAYING" "level last_shot_game = 1" "lives last_shot_game = 3"
    "map_option active (ship last_shot_game) = Some True"
    by (simp_all add: last_shot_game_def Ship_init_def)
  have l2: "asteroids (fst (after_collisions (1 / 50) last_shot_game zero_draws)) = []"
    "alien_ships (fst (after_collisions (1 / 50) last_shot_game zero_draws)) = []"
    "snd (after_collisions (1 / 50) last_shot_game zero_draws) = zero_draws"
    by (simp_all add: last_shot_after_collisions last_shot_fields)
  have dead: "map_option active (ship (fst (after_collisions (1 / 50) last_shot_game zero_draws)))
      = Some False"
    by (simp add: last_shot_after_collisions last_shot_ship_destroyed)
  let ?g1 = "(fst (after_collisions (1 / 50) last_shot_game zero_draws))\<lparr>level := level last_shot_game + 1\<rparr>"
  have up: "Game_update (1 / 50) last_shot_game zero_draws = start_level ?g1 zero_draws"
    using Game_update_level_up [OF l1(1) l2(1) l2(2)] by (simp add: l2)
  from start_level_returns [OF always_eventually_accepts_zero_draws, of ?g1]
  obtain g' r' where s: "start_level ?g1 zero_draws = Some (g', r')" by blast
  from start_level_ship_active [OF s]
  have "lives g' = 3" "level g' = 2" "state g' = PLAYING" "ship g' = Some new_ship"
    by (simp_all add: after_collisions_frame l1)
  with up s l1 dead show ?thesis by simp
qed

end
